theory Spec2Isabelle
  imports Complex_Main
begin

section \<open>TradeMatrix: values, errors and arithmetic\<close>

text \<open>
  The repository is Python. A JSON value that can stand in the \<open>"value"\<close> field of a
  price entry is a string, a number or \<open>None\<close>; a number is read as the float of its
  value. Exceptions are values of \<open>py_error\<close>; a function that can raise returns
  \<open>py_error + 'a\<close>, with \<open>Inl\<close> for the exception.
\<close>

datatype py_error =
    ValueError | TypeError | ZeroDivisionError | OverflowError | IndexError
  | UnboundLocalError | StatisticsError

subsection \<open>Binary floating point\<close>

text \<open>
  A Python \<open>float\<close> is an IEEE 754 binary64 number: \<open>Fin x\<close> is the finite float of
  the exact value \<open>x\<close> (the two zeros are one value, as they are for \<open>==\<close>), and
  \<open>PosInf\<close>, \<open>NegInf\<close> and \<open>NaN\<close> are \<open>inf\<close>, \<open>-inf\<close> and \<open>nan\<close>.

  \<open>round_half_even\<close> is rounding to the nearest integer, a tie going to the even one.
  \<open>fl_round x\<close> is the binary64 rounding of the real number \<open>x\<close> before overflow is
  looked at: the nearest multiple of \<open>2 ^ quantum x\<close>, where the quantum is 52 binary
  places below the leading bit of \<open>x\<close>, and \<open>-1074\<close> for the subnormal numbers.
  \<open>to_float x\<close> is the float that an operation with the exact result \<open>x\<close> delivers,
  and the float that a decimal literal of value \<open>x\<close> denotes.
\<close>

definition round_half_even :: "real \<Rightarrow> int" where
  "round_half_even x =
     (let f = \<lfloor>x\<rfloor>; d = x - of_int f
      in if d < 1/2 then f else if d > 1/2 then f + 1 else if even f then f else f + 1)"

datatype float64 = Fin real | PosInf | NegInf | NaN

definition pow2 :: "int \<Rightarrow> real" where
  "pow2 k = (if 0 \<le> k then 2 ^ nat k else 1 / 2 ^ nat (- k))"

definition quantum :: "real \<Rightarrow> int" where
  "quantum x = max \<lfloor>log 2 \<bar>x\<bar>\<rfloor> (- 1022) - 52"

definition fl_round :: "real \<Rightarrow> real" where
  "fl_round x =
     (if x = 0 then 0
      else of_int (round_half_even (x / pow2 (quantum x))) * pow2 (quantum x))"

definition to_float :: "real \<Rightarrow> float64" where
  "to_float x =
     (let y = fl_round x
      in if 2 ^ 1024 \<le> y then PosInf else if y \<le> - (2 ^ 1024) then NegInf else Fin y)"

text \<open>
  The operators \<open>-x\<close>, \<open>x + y\<close>, \<open>x - y\<close>, \<open>x * y\<close> and \<open>x / y\<close> on floats.
  \<open>fdiv\<close> is the quotient for a divisor other than zero; \<open>py_truediv\<close> is Python's
  division, which raises \<open>ZeroDivisionError\<close> for a zero divisor.
\<close>

fun fneg :: "float64 \<Rightarrow> float64" where
  "fneg (Fin x) = Fin (- x)"
| "fneg PosInf = NegInf"
| "fneg NegInf = PosInf"
| "fneg NaN = NaN"

fun fadd :: "float64 \<Rightarrow> float64 \<Rightarrow> float64" where
  "fadd (Fin x) (Fin y) = to_float (x + y)"
| "fadd NaN b = NaN"
| "fadd a NaN = NaN"
| "fadd PosInf NegInf = NaN"
| "fadd NegInf PosInf = NaN"
| "fadd PosInf b = PosInf"
| "fadd a PosInf = PosInf"
| "fadd NegInf b = NegInf"
| "fadd a NegInf = NegInf"

definition fsub :: "float64 \<Rightarrow> float64 \<Rightarrow> float64" where
  "fsub a b = fadd a (fneg b)"

fun fmul :: "float64 \<Rightarrow> float64 \<Rightarrow> float64" where
  "fmul (Fin x) (Fin y) = to_float (x * y)"
| "fmul NaN b = NaN"
| "fmul a NaN = NaN"
| "fmul (Fin x) PosInf = (if x = 0 then NaN else if 0 < x then PosInf else NegInf)"
| "fmul (Fin x) NegInf = (if x = 0 then NaN else if 0 < x then NegInf else PosInf)"
| "fmul PosInf (Fin y) = (if y = 0 then NaN else if 0 < y then PosInf else NegInf)"
| "fmul NegInf (Fin y) = (if y = 0 then NaN else if 0 < y then NegInf else PosInf)"
| "fmul PosInf PosInf = PosInf"
| "fmul PosInf NegInf = NegInf"
| "fmul NegInf PosInf = NegInf"
| "fmul NegInf NegInf = PosInf"

fun fdiv :: "float64 \<Rightarrow> float64 \<Rightarrow> float64" where
  "fdiv (Fin x) (Fin y) = to_float (x / y)"
| "fdiv NaN b = NaN"
| "fdiv a NaN = NaN"
| "fdiv (Fin x) b = Fin 0"
| "fdiv PosInf (Fin y) = (if 0 < y then PosInf else NegInf)"
| "fdiv NegInf (Fin y) = (if 0 < y then NegInf else PosInf)"
| "fdiv a b = NaN"

definition py_truediv :: "float64 \<Rightarrow> float64 \<Rightarrow> py_error + float64" where
  "py_truediv a b = (if b = Fin 0 then Inl ZeroDivisionError else Inr (fdiv a b))"

text \<open>
  The comparisons \<open>a > b\<close>, \<open>a < b\<close> and \<open>a <= b\<close>: each is false when an operand is
  \<open>nan\<close>.
\<close>

fun fgt :: "float64 \<Rightarrow> float64 \<Rightarrow> bool" where
  "fgt (Fin x) (Fin y) = (y < x)"
| "fgt NaN b = False"
| "fgt a NaN = False"
| "fgt a PosInf = False"
| "fgt PosInf b = True"
| "fgt NegInf b = False"
| "fgt a NegInf = True"

definition flt :: "float64 \<Rightarrow> float64 \<Rightarrow> bool" where
  "flt a b = fgt b a"


text \<open>
  \<open>round(x, 2)\<close> on a float: the exact value of \<open>x\<close> is rounded to the nearest multiple
  of 1/100, a tie going to the even multiple, and the result is the float nearest to
  that decimal; \<open>inf\<close>, \<open>-inf\<close> and \<open>nan\<close> are returned as they are.
\<close>

fun py_round2 :: "float64 \<Rightarrow> float64" where
  "py_round2 (Fin x) = to_float (of_int (round_half_even (x * 100)) / 100)"
| "py_round2 a = a"

text \<open>
  The builtins \<open>min\<close> and \<open>max\<close> on a non-empty list of floats: a later item replaces
  the current one when it is smaller (larger) by \<open><\<close> (\<open>>\<close>).
\<close>

definition py_min :: "float64 list \<Rightarrow> float64" where
  "py_min vs = fold (\<lambda>item m. if flt item m then item else m) (tl vs) (hd vs)"

definition py_max :: "float64 list \<Rightarrow> float64" where
  "py_max vs = fold (\<lambda>item m. if fgt item m then item else m) (tl vs) (hd vs)"

text \<open>
  One entry of a price series: the dict \<open>{"date": ..., "value": ...}\<close>.
\<close>

datatype py_value = PyStr string | PyNum float64 | PyNone

record oil_entry =
  e_date :: string
  e_value :: py_value

text \<open>
  \<open>str.lower()\<close> on the ASCII letters; every other character is kept.
\<close>

definition lower_char :: "char \<Rightarrow> char" where
  "lower_char c =
     (case map_of (zip ''ABCDEFGHIJKLMNOPQRSTUVWXYZ'' ''abcdefghijklmnopqrstuvwxyz'') c of
        Some d \<Rightarrow> d
      | None \<Rightarrow> c)"

definition lower :: "string \<Rightarrow> string" where
  "lower s = map lower_char s"

section \<open>The country fuel profiles\<close>

text \<open>
  \<open>COUNTRY_FUEL_DATA\<close> of \<open>app.py\<close> and of \<open>backend/services/mcp_tools.py\<close> (the two
  tables are equal). A float literal is the float nearest to it; the integer
  \<open>crude_conversion\<close> becomes a float where it divides one. The euro and pound signs of
  \<open>price_unit\<close> are their UTF-8 bytes.
\<close>

record country_cfg =
  tax_rate :: float64
  vat :: float64
  currency :: string
  local_name :: string
  common_fuels :: "string list"
  price_factor :: float64
  price_unit :: string
  crude_conversion :: float64
  cfg_notes :: string

definition germany_cfg :: country_cfg where
  "germany_cfg = \<lparr>
     tax_rate = to_float 65.45, vat = to_float 19.0, currency = ''EUR'',
     local_name = ''Germany'',
     common_fuels = [''Diesel'', ''Super E10'', ''Super E5'', ''Super Plus''],
     price_factor = to_float 1.15,
     price_unit = [CHR 0xE2, CHR 0x82, CHR 0xAC] @ ''/liter'',
     crude_conversion = Fin 159,
     cfg_notes = ''Germany has among the highest fuel taxes in Europe, with prices varying significantly across regions.'' \<rparr>"

definition usa_cfg :: country_cfg where
  "usa_cfg = \<lparr>
     tax_rate = to_float 18.4, vat = to_float 0.0, currency = ''USD'',
     local_name = ''United States'',
     common_fuels = [''Regular Gasoline'', ''Premium Gasoline'', ''Diesel''],
     price_factor = to_float 1.05,
     price_unit = ''$/gallon'',
     crude_conversion = Fin 42,
     cfg_notes = ''US fuel prices vary significantly by state due to different state taxes.'' \<rparr>"

definition uk_cfg :: country_cfg where
  "uk_cfg = \<lparr>
     tax_rate = to_float 57.95, vat = to_float 20.0, currency = ''GBP'',
     local_name = ''United Kingdom'',
     common_fuels = [''Unleaded'', ''Premium Unleaded'', ''Diesel''],
     price_factor = to_float 1.1,
     price_unit = [CHR 0xC2, CHR 0xA3] @ ''/liter'',
     crude_conversion = Fin 159,
     cfg_notes = ''UK fuel prices include fuel duty and VAT.'' \<rparr>"

definition COUNTRY_FUEL_DATA :: "string \<Rightarrow> country_cfg option" where
  "COUNTRY_FUEL_DATA =
     map_of [(''germany'', germany_cfg), (''usa'', usa_cfg), (''uk'', uk_cfg)]"

section \<open>Retail price conversion\<close>

text \<open>
  The dict \<open>DataFetcher._compute_retail_price\<close> of \<open>app.py\<close> returns.
\<close>

record retail_quote =
  r_price :: float64
  r_unit :: string
  r_country :: string
  r_common_fuel :: string
  r_currency :: string

text \<open>
  \<open>cfg["common_fuels"][0] if cfg["common_fuels"] else "Fuel"\<close>
\<close>

definition primary_fuel :: "country_cfg \<Rightarrow> string" where
  "primary_fuel cfg = (case common_fuels cfg of [] \<Rightarrow> ''Fuel'' | f # _ \<Rightarrow> f)"

text \<open>
  \<open>DataFetcher._compute_retail_price(brent_price_usd, country)\<close> of \<open>app.py\<close>:
  \<open>None\<close> for a country that is not in the table; no exchange rate is applied. Each
  line of the source is one line here, each operator one float operation.
\<close>

definition compute_retail_price :: "float64 \<Rightarrow> string \<Rightarrow> py_error + retail_quote option" where
  "compute_retail_price brent_price_usd country =
     (case COUNTRY_FUEL_DATA country of
        None \<Rightarrow> Inr None
      | Some cfg \<Rightarrow>
     (case py_truediv (fmul brent_price_usd (price_factor cfg)) (crude_conversion cfg) of
        Inl err \<Rightarrow> Inl err
      | Inr price_local \<Rightarrow>
     (case py_truediv (tax_rate cfg) (Fin 100) of
        Inl err \<Rightarrow> Inl err
      | Inr tax \<Rightarrow>
     (let price_local = fmul price_local (fadd (Fin 1) tax)
      in
     (case py_truediv (vat cfg) (Fin 100) of
        Inl err \<Rightarrow> Inl err
      | Inr v \<Rightarrow>
     (let price_local = fmul price_local (fadd (Fin 1) v)
      in Inr (Some \<lparr> r_price = py_round2 price_local,
                      r_unit = price_unit cfg,
                      r_country = local_name cfg,
                      r_common_fuel = primary_fuel cfg,
                      r_currency = currency cfg \<rparr>)))))))"

text \<open>
  The endpoint \<open>fuel_price(country)\<close> of \<open>backend/main.py\<close>. Its two awaited calls are
  inputs of the model: \<open>oil_res\<close> is the outcome of \<open>fetch_oil_prices\<close> and \<open>fx_res\<close>
  the outcome of \<open>fetch_fx_rates(symbols=currency)\<close>, which is only looked at for a
  currency other than USD. \<open>pyfloat\<close> is Python's \<open>float\<close> on strings, \<open>None\<close>
  where it raises \<open>ValueError\<close>. An \<open>HTTPException\<close> carries its status code; every
  other exception of the body becomes status 500.
\<close>

datatype http_error = HTTPException nat

record fuel_price_result =
  fp_country :: string
  fp_price :: float64
  fp_unit :: string
  fp_currency :: string
  fp_fuel_types :: "string list"
  fp_primary_fuel :: string
  fp_tax_rate :: float64
  fp_vat :: float64
  fp_brent_price_usd :: float64
  fp_fx_rate :: float64
  fp_date :: string

definition fuel_price ::
  "(string \<Rightarrow> float64 option) \<Rightarrow> py_error + oil_entry list
     \<Rightarrow> py_error + (string \<rightharpoonup> float64) \<Rightarrow> string \<Rightarrow> http_error + fuel_price_result" where
  "fuel_price pyfloat oil_res fx_res country =
     (case oil_res of
        Inl e \<Rightarrow> Inl (HTTPException 500)
      | Inr oil_data \<Rightarrow>
          if oil_data = [] then Inl (HTTPException 404)
          else
            (case (case e_value (last oil_data) of
                     PyStr s \<Rightarrow>
                       (case pyfloat s of
                          None \<Rightarrow> Inl (HTTPException 400)
                        | Some x \<Rightarrow> Inr (PyNum x))
                   | v \<Rightarrow> Inr v) of
               Inl err \<Rightarrow> Inl err
             | Inr latest \<Rightarrow>
                 (case COUNTRY_FUEL_DATA (lower country) of
                    None \<Rightarrow> Inl (HTTPException 404)
                  | Some country_data \<Rightarrow>
                      (case (if currency country_data \<noteq> ''USD''
                             then (case fx_res of
                                     Inl e \<Rightarrow> Inl (HTTPException 500)
                                   | Inr fx_data \<Rightarrow>
                                       Inr (case fx_data (currency country_data) of
                                              Some r \<Rightarrow> r
                                            | None \<Rightarrow> Fin 1))
                             else Inr (Fin 1)) of
                         Inl err \<Rightarrow> Inl err
                       | Inr fx_rate \<Rightarrow>
                           (case latest of
                              PyNum latest_price_usd \<Rightarrow>
     (case py_truediv (fmul latest_price_usd (price_factor country_data))
             (crude_conversion country_data) of
        Inl err \<Rightarrow> Inl (HTTPException 500)
      | Inr price_local \<Rightarrow>
     (case py_truediv (tax_rate country_data) (Fin 100) of
        Inl err \<Rightarrow> Inl (HTTPException 500)
      | Inr tax \<Rightarrow>
     (let price_local = fmul price_local (fadd (Fin 1) tax)
      in
     (case py_truediv (vat country_data) (Fin 100) of
        Inl err \<Rightarrow> Inl (HTTPException 500)
      | Inr v \<Rightarrow>
     (let price_local = fmul price_local (fadd (Fin 1) v);
          price_local = fmul price_local fx_rate
      in Inr \<lparr> fp_country = local_name country_data,
                fp_price = py_round2 price_local,
                fp_unit = price_unit country_data,
                fp_currency = currency country_data,
                fp_fuel_types = common_fuels country_data,
                fp_primary_fuel = primary_fuel country_data,
                fp_tax_rate = tax_rate country_data,
                fp_vat = vat country_data,
                fp_brent_price_usd = latest_price_usd,
                fp_fx_rate = fx_rate,
                fp_date = e_date (last oil_data) \<rparr>)))))
                            | _ \<Rightarrow> Inl (HTTPException 500))))))"

text \<open>
  The formula as the specification words it, in its order: benchmark times price factor
  over the barrel-to-local-unit factor, then times 1 + tax/100, then times 1 + vat/100
  (\<open>spec_local_price\<close>); then, where there is an exchange rate, times that rate; the
  result rounded to two decimals.
\<close>

definition spec_local_price :: "float64 \<Rightarrow> country_cfg \<Rightarrow> float64" where
  "spec_local_price benchmark_price_usd cfg =
     fmul (fmul (fdiv (fmul benchmark_price_usd (price_factor cfg)) (crude_conversion cfg))
                (fadd (Fin 1) (fdiv (tax_rate cfg) (Fin 100))))
          (fadd (Fin 1) (fdiv (vat cfg) (Fin 100)))"

definition spec_retail_price :: "float64 \<Rightarrow> country_cfg \<Rightarrow> float64 option \<Rightarrow> float64" where
  "spec_retail_price benchmark_price_usd cfg fx_rate_usd_to_local =
     (case fx_rate_usd_to_local of
        None \<Rightarrow> py_round2 (spec_local_price benchmark_price_usd cfg)
      | Some fx \<Rightarrow> py_round2 (fmul (spec_local_price benchmark_price_usd cfg) fx))"

text \<open>
  The exchange rate \<open>fuel_price\<close> ends up with: 1.0 for USD, the fetched rate of the
  currency when the mapping has it, 1.0 otherwise.
\<close>

definition fuel_price_fx :: "country_cfg \<Rightarrow> (string \<rightharpoonup> float64) \<Rightarrow> float64" where
  "fuel_price_fx cfg fx_data =
     (if currency cfg = ''USD'' then Fin 1
      else (case fx_data (currency cfg) of Some r \<Rightarrow> r | None \<Rightarrow> Fin 1))"

section \<open>The statistics engine\<close>

text \<open>
  The dict of statistics that \<open>analyze_price_data\<close> (\<open>mcp_tools.py\<close>) and
  \<open>DataFetcher._calculate_statistics\<close> (\<open>app.py\<close>) build, the result
  \<open>{"trend": ..., "stats": ...}\<close> of the former, and a price entry of \<open>app.py\<close>,
  whose value is always a float.
\<close>

record series_stats =
  s_min :: float64
  s_max :: float64
  s_mean :: float64
  s_median :: float64
  s_range :: float64
  s_start_price :: float64
  s_end_price :: float64
  s_percent_change :: float64
  s_volatility :: float64


record price_point =
  p_date :: string
  p_value :: float64

text \<open>
  Python's module \<open>statistics\<close> is a parameter of the two functions: \<open>mean\<close>,
  \<open>median\<close> and \<open>stdev\<close> are its functions of these names on a list of floats, each
  returning a float or raising. What they compute is the library's matter, not the
  repository's, and has changed between versions of Python.
\<close>

record statistics_module =
  mean :: "float64 list \<Rightarrow> py_error + float64"
  median :: "float64 list \<Rightarrow> py_error + float64"
  stdev :: "float64 list \<Rightarrow> py_error + float64"



text \<open>
  \<open>DataFetcher._calculate_statistics(data)\<close> of \<open>app.py\<close>: \<open>None\<close> for fewer than two
  entries.
\<close>

definition calculate_statistics ::
  "statistics_module \<Rightarrow> price_point list \<Rightarrow> py_error + series_stats option" where
  "calculate_statistics statistics data =
     (if length data < 2 then Inr None
      else
        (let values = map p_value data;
             first_price = hd values;
             last_price = last values
         in
     (case py_truediv (fsub last_price first_price) first_price of
        Inl err \<Rightarrow> Inl err
      | Inr ratio \<Rightarrow>
     (let percent_change = fmul ratio (Fin 100)
      in
     (case mean statistics values of
        Inl err \<Rightarrow> Inl err
      | Inr mean_value \<Rightarrow>
     (case median statistics values of
        Inl err \<Rightarrow> Inl err
      | Inr median_value \<Rightarrow>
     (case (if length values > 1 then map_sum id py_round2 (stdev statistics values)
            else Inr (Fin 0)) of
        Inl err \<Rightarrow> Inl err
      | Inr volatility \<Rightarrow>
          Inr (Some \<lparr> s_min = py_min values,
                      s_max = py_max values,
                      s_mean = mean_value,
                      s_median = median_value,
                      s_range = fsub (py_max values) (py_min values),
                      s_start_price = first_price,
                      s_end_price = last_price,
                      s_percent_change = py_round2 percent_change,
                      s_volatility = volatility \<rparr>))))))))"



definition percent_change_of :: "float64 \<Rightarrow> float64 \<Rightarrow> py_error + float64" where
  "percent_change_of first_price last_price =
     map_sum id (\<lambda>ratio. fmul ratio (Fin 100))
       (py_truediv (fsub last_price first_price) first_price)"

text \<open>
  The library on finite data, for closed statements. \<open>statistics.mean\<close> is the exact
  mean of the data rounded once, \<open>statistics.median\<close> the middle element of the sorted
  data or \<open>(a + b) / 2\<close> of the two middle ones, and \<open>statistics.stdev\<close> (as of Python
  3.11) the square root of the exact sample variance rounded once. For data with an
  \<open>inf\<close> the mean is that \<open>inf\<close>, or \<open>nan\<close> with a \<open>nan\<close> or both infinities;
  what \<open>sorted\<close> makes of data with a \<open>nan\<close> and what \<open>stdev\<close> makes of data that
  is not finite is not modelled, and \<open>StatisticsError\<close> stands for it.
\<close>

definition is_finite :: "float64 \<Rightarrow> bool" where
  "is_finite a = (case a of Fin x \<Rightarrow> True | _ \<Rightarrow> False)"

definition exact_value :: "float64 \<Rightarrow> real" where
  "exact_value a = (case a of Fin x \<Rightarrow> x | _ \<Rightarrow> 0)"

definition statistics_mean :: "float64 list \<Rightarrow> py_error + float64" where
  "statistics_mean data =
     (if data = [] then Inl StatisticsError
      else if list_all is_finite data
        then Inr (to_float (sum_list (map exact_value data) / real (length data)))
      else if NaN \<in> set data \<or> (PosInf \<in> set data \<and> NegInf \<in> set data) then Inr NaN
      else if PosInf \<in> set data then Inr PosInf
      else Inr NegInf)"

fun insort_float :: "float64 \<Rightarrow> float64 list \<Rightarrow> float64 list" where
  "insort_float a [] = [a]"
| "insort_float a (b # bs) = (if fgt a b then b # insort_float a bs else a # b # bs)"

definition statistics_median :: "float64 list \<Rightarrow> py_error + float64" where
  "statistics_median data0 =
     (if data0 = [] \<or> NaN \<in> set data0 then Inl StatisticsError
      else
        (let data = foldr insort_float data0 [];
             n = length data
         in if n mod 2 = 1 then Inr (data ! (n div 2))
            else py_truediv (fadd (data ! (n div 2 - 1)) (data ! (n div 2))) (Fin 2)))"

definition statistics_stdev :: "float64 list \<Rightarrow> py_error + float64" where
  "statistics_stdev data =
     (if length data < 2 then Inl StatisticsError
      else if list_all is_finite data then
        (let xs = map exact_value data;
             c = sum_list xs / real (length xs)
         in Inr (to_float (sqrt ((\<Sum>x\<leftarrow>xs. (x - c)\<^sup>2) / real (length xs - 1)))))
      else Inl StatisticsError)"

definition py_statistics :: statistics_module where
  "py_statistics = \<lparr> mean = statistics_mean, median = statistics_median,
                      stdev = statistics_stdev \<rparr>"

text \<open>
  A reading of \<open>float\<close> on plain decimal literals (an optional sign, digits, an optional
  point and digits), used where a statement needs a concrete \<open>pyfloat\<close>: the float
  nearest to the decimal. Python accepts more (exponents, surrounding blanks, \<open>inf\<close>,
  \<open>nan\<close>); the general statements hold for every \<open>pyfloat\<close>.
\<close>

definition digit_of :: "char \<Rightarrow> nat option" where
  "digit_of c = map_of (zip ''0123456789'' [0, 1, 2, 3, 4, 5, 6, 7, 8, 9]) c"

fun digits_value :: "nat \<Rightarrow> string \<Rightarrow> nat option" where
  "digits_value acc [] = Some acc"
| "digits_value acc (c # cs) =
     (case digit_of c of
        None \<Rightarrow> None
      | Some d \<Rightarrow> digits_value (10 * acc + d) cs)"

definition float_decimal :: "string \<Rightarrow> float64 option" where
  "float_decimal s =
     (let neg = (take 1 s = ''-'');
          body = (if take 1 s = ''-'' \<or> take 1 s = ''+'' then drop 1 s else s);
          ip = takeWhile (\<lambda>c. c \<noteq> CHR ''.'') body;
          fp = drop 1 (dropWhile (\<lambda>c. c \<noteq> CHR ''.'') body)
      in if ip = [] \<and> fp = [] then None
         else
           (case (digits_value 0 ip, digits_value 0 fp) of
              (Some i, Some f) \<Rightarrow>
                Some (to_float ((if neg then -1 else 1) * (real i + real f / 10 ^ length fp)))
            | _ \<Rightarrow> None))"

section \<open>Data access\<close>

subsection \<open>Calendar dates\<close>

text \<open>
  A \<open>datetime.date\<close> is its proleptic Gregorian ordinal (\<open>date.toordinal()\<close>, day 1 is
  0001-01-01, day 3652059 is 9999-12-31), so adding a \<open>timedelta\<close> of days is integer
  addition and the \<open>days\<close> of a difference is integer subtraction. The functions of
  this subsection follow the algorithms of Python's \<open>datetime\<close> module; \<open>parse_iso\<close>
  reads the strict form \<open>YYYY-MM-DD\<close> and \<open>isoformat\<close> prints it. The repository's
  functions take the parser and the printer as parameters (\<open>strptime\<close> accepts more
  than the strict form), and these two are the instance that closed statements use.
\<close>

definition is_leap :: "int \<Rightarrow> bool" where
  "is_leap y = (y mod 4 = 0 \<and> (y mod 100 \<noteq> 0 \<or> y mod 400 = 0))"

definition days_in_month :: "int \<Rightarrow> int \<Rightarrow> int" where
  "days_in_month y m =
     (if m = 2 then (if is_leap y then 29 else 28)
      else if m = 4 \<or> m = 6 \<or> m = 9 \<or> m = 11 then 30 else 31)"

definition days_before_year :: "int \<Rightarrow> int" where
  "days_before_year y = (y - 1) * 365 + (y - 1) div 4 - (y - 1) div 100 + (y - 1) div 400"

definition days_before_month :: "int \<Rightarrow> int \<Rightarrow> int" where
  "days_before_month y m = (\<Sum>k\<leftarrow>[1..m - 1]. days_in_month y k)"

definition ymd2ord :: "int \<Rightarrow> int \<Rightarrow> int \<Rightarrow> int" where
  "ymd2ord y m d = days_before_year y + days_before_month y m + d"

definition ord2ymd :: "int \<Rightarrow> int \<times> int \<times> int" where
  "ord2ymd n0 =
     (let n = n0 - 1;
          n400 = n div 146097; n = n mod 146097;
          n100 = n div 36524; n = n mod 36524;
          n4 = n div 1461; n = n mod 1461;
          n1 = n div 365; n = n mod 365;
          y = n400 * 400 + 1 + n100 * 100 + n4 * 4 + n1
      in if n1 = 4 \<or> n100 = 4 then (y - 1, 12, 31)
         else
           (let m = (n + 50) div 32;
                preceding = days_before_month y m
            in if preceding > n then (y, m - 1, n - days_before_month y (m - 1) + 1)
               else (y, m, n - preceding + 1)))"

definition digit_char :: "nat \<Rightarrow> char" where
  "digit_char d = ''0123456789'' ! (d mod 10)"

fun digits_of :: "nat \<Rightarrow> nat \<Rightarrow> string" where
  "digits_of 0 n = []"
| "digits_of (Suc w) n = digits_of w (n div 10) @ [digit_char n]"

definition isoformat :: "int \<Rightarrow> string" where
  "isoformat n =
     (case ord2ymd n of
        (y, m, d) \<Rightarrow> digits_of 4 (nat y) @ ''-'' @ digits_of 2 (nat m) @ ''-'' @ digits_of 2 (nat d))"

definition parse_iso :: "string \<Rightarrow> int option" where
  "parse_iso s =
     (if length s = 10 \<and> s ! 4 = CHR ''-'' \<and> s ! 7 = CHR ''-'' then
        (case (digits_value 0 (take 4 s), digits_value 0 (take 2 (drop 5 s)),
               digits_value 0 (drop 8 s)) of
           (Some y, Some m, Some d) \<Rightarrow>
             if 1 \<le> y \<and> 1 \<le> m \<and> m \<le> 12 \<and> 1 \<le> d \<and> int d \<le> days_in_month (int y) (int m)
             then Some (ymd2ord (int y) (int m) (int d))
             else None
         | _ \<Rightarrow> None)
      else None)"

subsection \<open>Synthetic and fetched oil prices (\<open>backend/services/data.py\<close>)\<close>

text \<open>
  What \<open>data.py\<close> takes from Python's library and from chance:
  \<open>rt_strptime s\<close> is \<open>datetime.strptime(s, "%Y-%m-%d").date()\<close>, \<open>None\<close> where it
  raises \<open>ValueError\<close>; \<open>rt_strftime\<close> is \<open>strftime("%Y-%m-%d")\<close>; \<open>rt_str\<close> is
  \<open>str\<close> on a float; \<open>rt_uniform i\<close> is the draw of \<open>random.uniform(-0.5, 0.5)\<close> in
  round \<open>i\<close> of the loop, a float.
\<close>

record runtime =
  rt_strptime :: "string \<Rightarrow> int option"
  rt_strftime :: "int \<Rightarrow> string"
  rt_str :: "float64 \<Rightarrow> string"
  rt_uniform :: "nat \<Rightarrow> float64"

text \<open>
  \<open>generate_mock_oil_data(start, end)\<close>: one entry for each \<open>i\<close> of \<open>range(days)\<close>,
  which is empty when \<open>days\<close> is not positive.
\<close>

definition generate_mock_oil_data :: "runtime \<Rightarrow> string \<Rightarrow> string \<Rightarrow> py_error + oil_entry list" where
  "generate_mock_oil_data rt start end =
     (case rt_strptime rt start of
        None \<Rightarrow> Inl ValueError
      | Some start_date \<Rightarrow>
          (case rt_strptime rt end of
             None \<Rightarrow> Inl ValueError
           | Some end_date \<Rightarrow>
               (let delta = end_date - start_date;
                    days = delta + 1
                in Inr (map (\<lambda>i.
                          let current_date = start_date + int i;
                              base_price = to_float 80.0;
                              price = fadd (fadd base_price
                                              (fmul (Fin (real (i mod 10))) (to_float 0.1)))
                                        (rt_uniform rt i)
                          in \<lparr> e_date = rt_strftime rt current_date,
                                e_value = PyStr (rt_str rt (py_round2 price)) \<rparr>)
                        [0..<nat days]))))"

text \<open>
  The reply of the EIA service as \<open>fetch_oil_prices\<close> sees it. \<open>EiaRaises\<close> is every
  exception inside the \<open>try\<close> block (an HTTP error status, a transport error, a timeout,
  a body that is not the expected JSON); \<open>EiaNoData\<close> is a body without
  \<open>response.data\<close>; \<open>EiaData\<close> carries the items of \<open>response.data\<close>, each with the
  keys \<open>period\<close> and \<open>value\<close> it has. \<open>key_missing\<close> is \<open>not KEY\<close> for the value of
  \<open>os.getenv\<close>: no variable, or an empty one.
\<close>

record api_item =
  period :: "string option"
  item_value :: "py_value option"

datatype eia_reply = EiaRaises | EiaNoData | EiaData "api_item list"

definition key_missing :: "string option \<Rightarrow> bool" where
  "key_missing k = (k = None \<or> k = Some [])"

text \<open>
  \<open>fetch_oil_prices(start, end)\<close>. Every \<open>except\<close> branch and the two fallbacks inside
  the \<open>try\<close> call \<open>generate_mock_oil_data(start, end)\<close>; an exception of that call is
  the function's own.
\<close>

definition fetch_oil_prices ::
  "runtime \<Rightarrow> string option \<Rightarrow> eia_reply \<Rightarrow> string \<Rightarrow> string \<Rightarrow> py_error + oil_entry list" where
  "fetch_oil_prices rt EIA_KEY reply start end =
     (if key_missing EIA_KEY then generate_mock_oil_data rt start end
      else
        (case reply of
           EiaRaises \<Rightarrow> generate_mock_oil_data rt start end
         | EiaNoData \<Rightarrow> generate_mock_oil_data rt start end
         | EiaData api_data \<Rightarrow>
             (let transformed_data =
                    concat (map (\<lambda>item.
                              case (period item, item_value item) of
                                (Some p, Some v) \<Rightarrow> [\<lparr> e_date = p, e_value = v \<rparr>]
                              | _ \<Rightarrow> [])
                            api_data)
              in if transformed_data = [] \<and> api_data \<noteq> []
                 then generate_mock_oil_data rt start end
                 else Inr transformed_data)))"

text \<open>
  \<open>get_oil_price(date)\<close> of \<open>mcp_tools.py\<close>:
  \<open>data[0] if data else {"date": date, "value": None}\<close>.
\<close>

definition get_oil_price ::
  "runtime \<Rightarrow> string option \<Rightarrow> eia_reply \<Rightarrow> string \<Rightarrow> py_error + oil_entry" where
  "get_oil_price rt EIA_KEY reply date =
     (case fetch_oil_prices rt EIA_KEY reply date date of
        Inl e \<Rightarrow> Inl e
      | Inr data \<Rightarrow>
          Inr (if data \<noteq> [] then hd data else \<lparr> e_date = date, e_value = PyNone \<rparr>))"

text \<open>
  An instance of the runtime for closed statements: the strict ISO parser and printer, a
  printer of floats with at most two decimals, and a fixed sequence of draws.
\<close>

fun nat_str :: "nat \<Rightarrow> string" where
  "nat_str n = (if n < 10 then [digit_char n] else nat_str (n div 10) @ [digit_char n])"

definition str_2dp :: "float64 \<Rightarrow> string" where
  "str_2dp a =
     (case a of
        Fin x \<Rightarrow>
          (let cents = nat (round_half_even (\<bar>x\<bar> * 100))
           in (if x < 0 then ''-'' else '''') @ nat_str (cents div 100) @ ''.''
                @ (if cents mod 10 = 0 then [digit_char (cents div 10)]
                   else [digit_char (cents div 10), digit_char cents]))
      | PosInf \<Rightarrow> ''inf''
      | NegInf \<Rightarrow> ''-inf''
      | NaN \<Rightarrow> ''nan'')"

definition demo_runtime :: runtime where
  "demo_runtime = \<lparr> rt_strptime = parse_iso, rt_strftime = isoformat, rt_str = str_2dp,
                     rt_uniform = (\<lambda>i. if even i then Fin 0.25 else Fin (- 0.125)) \<rparr>"

subsection \<open>Synthetic and fetched exchange rates\<close>

text \<open>
  \<open>symbols.split(",")\<close>, and the dict comprehension of \<open>generate_mock_fx_data\<close>
  (\<open>data.py\<close>): a later occurrence of a symbol overwrites the rate of an earlier one.
  A synthetic rate is written as the number \<open>1.0 + i * 0.1\<close> that the source's expression
  denotes, a real number; nothing is computed from the rates of this subsection.
\<close>

fun split_comma :: "string \<Rightarrow> string list" where
  "split_comma [] = [[]]"
| "split_comma (c # cs) =
     (if c = CHR '','' then [] # split_comma cs
      else (case split_comma cs of
              w # ws \<Rightarrow> (c # w) # ws
            | [] \<Rightarrow> [[c]]))"

definition generate_mock_fx_data :: "string \<Rightarrow> (string \<rightharpoonup> real)" where
  "generate_mock_fx_data symbols =
     fold (\<lambda>(i, symbol) mock_data. mock_data(symbol \<mapsto> 1.0 + real i * 0.1))
       (enumerate 0 (split_comma symbols)) Map.empty"

text \<open>
  \<open>fetch_fx_rates(base, symbols)\<close> of \<open>data.py\<close> and the reply of the rates service:
  \<open>FxRaises\<close> is every exception inside the \<open>try\<close> block, \<open>FxNoRates\<close> a body without
  \<open>rates\<close>. The synthetic branch does not look at \<open>base\<close>.
\<close>

datatype fx_reply = FxRaises | FxNoRates | FxRates "string \<rightharpoonup> real"

definition fetch_fx_rates ::
  "string option \<Rightarrow> fx_reply \<Rightarrow> string \<Rightarrow> string \<Rightarrow> (string \<rightharpoonup> real)" where
  "fetch_fx_rates OXR_KEY reply base symbols =
     (if key_missing OXR_KEY then generate_mock_fx_data symbols
      else
        (case reply of
           FxRaises \<Rightarrow> generate_mock_fx_data symbols
         | FxNoRates \<Rightarrow> generate_mock_fx_data symbols
         | FxRates rates \<Rightarrow> rates))"

text \<open>
  \<open>get_fx_rate(symbol)\<close> of \<open>mcp_tools.py\<close>: \<open>{symbol: rates.get(symbol)}\<close>, where the
  value \<open>None\<close> of the dict is \<open>Some None\<close>.
\<close>

definition get_fx_rate :: "string option \<Rightarrow> fx_reply \<Rightarrow> string \<Rightarrow> (string \<rightharpoonup> real option)" where
  "get_fx_rate OXR_KEY reply symbol =
     (let rates = fetch_fx_rates OXR_KEY reply ''USD'' symbol
      in [symbol \<mapsto> rates symbol])"

text \<open>
  \<open>DataFetcher._generate_mock_fx_data(parameters)\<close> of \<open>app.py\<close>; the timestamp of the
  result is left out. \<open>requested_symbols\<close> is its
  \<open>parameters.get("currencies", "EUR,USD,GBP,JPY,CAD").split(",")\<close>.
\<close>

record fx_result =
  fx_rates :: "string \<rightharpoonup> real"
  fx_base :: string
  fx_source :: string

definition requested_symbols :: "(string \<rightharpoonup> string) \<Rightarrow> string list" where
  "requested_symbols parameters =
     split_comma (case parameters ''currencies'' of
                    Some c \<Rightarrow> c
                  | None \<Rightarrow> ''EUR,USD,GBP,JPY,CAD'')"

definition DataFetcher_generate_mock_fx_data :: "(string \<rightharpoonup> string) \<Rightarrow> fx_result" where
  "DataFetcher_generate_mock_fx_data parameters =
     (let symbols = requested_symbols parameters;
          base = (case parameters ''base_currency'' of Some b \<Rightarrow> b | None \<Rightarrow> ''USD'');
          rates = fold (\<lambda>(i, symbol) rates.
                          if symbol \<noteq> base then rates(symbol \<mapsto> 1.0 + real i * 0.1) else rates)
                    (enumerate 0 symbols) Map.empty
      in \<lparr> fx_rates = rates, fx_base = base, fx_source = ''Mock data'' \<rparr>)"

subsection \<open>The synthetic oil series of \<open>app.py\<close>\<close>

text \<open>
  What \<open>DataFetcher._generate_mock_oil_data\<close> takes from the library, from chance and
  from the clock: \<open>date.fromisoformat\<close> (\<open>None\<close> where it raises \<open>ValueError\<close>),
  \<open>date.isoformat\<close>, the draws of \<open>random.uniform(-0.5, 0.5)\<close> (floats) and
  \<open>date.today()\<close>.
  \<open>date_minus_days d n\<close> is \<open>d - timedelta(days=n)\<close>: \<open>OverflowError\<close> when the
  timedelta or the resulting date is out of range.
\<close>

record app_runtime =
  rt_fromisoformat :: "string \<Rightarrow> int option"
  rt_isoformat :: "int \<Rightarrow> string"
  rt_random :: "nat \<Rightarrow> float64"
  rt_today :: int

definition date_minus_days :: "int \<Rightarrow> int \<Rightarrow> py_error + int" where
  "date_minus_days d n =
     (if 999999999 < \<bar>n\<bar> then Inl OverflowError
      else if d - n < 1 \<or> 3652059 < d - n then Inl OverflowError
      else Inr (d - n))"

text \<open>
  The statistics dict with the two keys the generator may add, and the dict it returns.
\<close>

record app_stats = series_stats +
  s_retail_price :: "retail_quote option"
  s_fx_rate :: "float64 option"

record mock_oil_result =
  m_data :: "price_point list"
  m_stats :: "app_stats option"
  m_source :: string
  m_parameters :: "string \<rightharpoonup> string"

text \<open>
  \<open>DataFetcher._generate_mock_oil_data(parameters)\<close>. The defaults of the two \<open>get\<close>
  calls are evaluated first. With a location of the table, \<open>data[-1]\<close> raises
  \<open>IndexError\<close> on an empty series and \<open>stats["retail_price"] = retail\<close> raises
  \<open>TypeError\<close> when the statistics are \<open>None\<close>, which they are for a series of
  fewer than two entries.
\<close>

definition DataFetcher_generate_mock_oil_data ::
  "app_runtime \<Rightarrow> statistics_module \<Rightarrow> (string \<rightharpoonup> string)
     \<Rightarrow> py_error + mock_oil_result" where
  "DataFetcher_generate_mock_oil_data rt statistics parameters =
     (case date_minus_days (rt_today rt) 30 of
        Inl err \<Rightarrow> Inl err
      | Inr month_ago \<Rightarrow>
     (case rt_fromisoformat rt (case parameters ''start_date'' of
                                  Some s \<Rightarrow> s
                                | None \<Rightarrow> rt_isoformat rt month_ago) of
        None \<Rightarrow> Inl ValueError
      | Some start_date \<Rightarrow>
     (case rt_fromisoformat rt (case parameters ''end_date'' of
                                  Some s \<Rightarrow> s
                                | None \<Rightarrow> rt_isoformat rt (rt_today rt)) of
        None \<Rightarrow> Inl ValueError
      | Some end_date \<Rightarrow>
     (let delta = end_date - start_date;
          days = delta + 1;
          data = map (\<lambda>i.
                    let current_date = start_date + int i;
                        base_price = to_float 80.0;
                        price = fadd (fadd base_price
                                        (fmul (Fin (real (i mod 10))) (to_float 0.1)))
                                  (rt_random rt i)
                    in \<lparr> p_date = rt_isoformat rt current_date,
                          p_value = py_round2 price \<rparr>)
                  [0..<nat days]
      in (case calculate_statistics statistics data of
            Inl err \<Rightarrow> Inl err
          | Inr sts \<Rightarrow>
              (case (case parameters ''location'' of
                       None \<Rightarrow> None
                     | Some country \<Rightarrow> map_option (\<lambda>cfg. (country, cfg)) (COUNTRY_FUEL_DATA country)) of
                 None \<Rightarrow>
                   Inr \<lparr> m_data = data,
                         m_stats = map_option (\<lambda>st. series_stats.extend st
                                     \<lparr> s_retail_price = None, s_fx_rate = None \<rparr>) sts,
                         m_source = ''Mock data'',
                         m_parameters = parameters \<rparr>
               | Some (country, cfg) \<Rightarrow>
                   if data = [] then Inl IndexError
                   else
                     (let latest_usd = p_value (last data);
                          usd_to_local =
                            (if currency cfg = ''EUR'' then to_float 0.92
                             else if currency cfg = ''GBP'' then to_float 0.79
                             else to_float 1.0)
                      in (case compute_retail_price latest_usd country of
                            Inl err \<Rightarrow> Inl err
                          | Inr None \<Rightarrow>
                              Inr \<lparr> m_data = data,
                                    m_stats = map_option (\<lambda>st. series_stats.extend st
                                                \<lparr> s_retail_price = None, s_fx_rate = None \<rparr>) sts,
                                    m_source = ''Mock data'',
                                    m_parameters = parameters \<rparr>
                          | Inr (Some retail) \<Rightarrow>
                              (case sts of
                                 None \<Rightarrow> Inl TypeError
                               | Some st \<Rightarrow>
                                   Inr \<lparr> m_data = data,
                                         m_stats = Some (series_stats.extend st
                                                     \<lparr> s_retail_price = Some retail,
                                                       s_fx_rate = Some usd_to_local \<rparr>),
                                         m_source = ''Mock data'',
                                         m_parameters = parameters \<rparr>)))))))))"

definition demo_app_runtime :: app_runtime where
  "demo_app_runtime = \<lparr> rt_fromisoformat = parse_iso, rt_isoformat = isoformat,
                         rt_random = (\<lambda>i. if even i then Fin 0.25 else Fin (- 0.125)),
                         rt_today = 739924 \<rparr>"

text \<open>
  Three requests for closed statements: one day with a location, the same day without
  one, and three days with the location.
\<close>

definition single_day_usa :: "string \<rightharpoonup> string" where
  "single_day_usa = [''start_date'' \<mapsto> ''2024-02-28'', ''end_date'' \<mapsto> ''2024-02-28'',
                     ''location'' \<mapsto> ''usa'']"

definition single_day :: "string \<rightharpoonup> string" where
  "single_day = [''start_date'' \<mapsto> ''2024-02-28'', ''end_date'' \<mapsto> ''2024-02-28'']"

definition three_days_usa :: "string \<rightharpoonup> string" where
  "three_days_usa = [''start_date'' \<mapsto> ''2024-02-28'', ''end_date'' \<mapsto> ''2024-03-01'',
                     ''location'' \<mapsto> ''usa'']"

section \<open>Query understanding\<close>

subsection \<open>Regular expressions\<close>

text \<open>
  The patterns of \<open>app.py\<close> are searched with Python's \<open>re.search\<close>. A pattern is a
  value of \<open>rx\<close>; \<open>Grp k r\<close> is the capturing group number \<open>k\<close>. \<open>rmatch\<close> lists the
  ways a pattern matches a prefix of the text, each with the rest of the text and the
  groups captured, in the order a backtracking matcher tries them: the left alternative
  first, the longer repetition first. A repetition only goes on after an iteration that
  consumed a character, so the fuel \<open>length text\<close> that \<open>search_from\<close> gives it is never
  used up. \<open>re_search\<close> returns the groups of the first way at the leftmost position
  that has one, \<open>None\<close> when there is no match. Characters are bytes: \<open>\s\<close>, \<open>\d\<close>
  and \<open>\w\<close> are their ASCII classes.
\<close>

datatype rx =
    Eps
  | Chr char
  | Cls "char list"
  | Seq rx rx
  | Alt rx rx
  | Star rx
  | Grp nat rx

type_synonym mstate = "string \<times> (nat \<times> string) list"

fun rmatch :: "nat \<Rightarrow> rx \<Rightarrow> mstate \<Rightarrow> mstate list" where
  "rmatch n Eps st = [st]"
| "rmatch n (Chr c) (s, g) = (case s of [] \<Rightarrow> [] | x # xs \<Rightarrow> if x = c then [(xs, g)] else [])"
| "rmatch n (Cls cs) (s, g) =
     (case s of [] \<Rightarrow> [] | x # xs \<Rightarrow> if List.member cs x then [(xs, g)] else [])"
| "rmatch n (Seq a b) st = concat (map (rmatch n b) (rmatch n a st))"
| "rmatch n (Alt a b) st = rmatch n a st @ rmatch n b st"
| "rmatch n (Grp k a) (s, g) =
     map (\<lambda>(t, g'). (t, (k, take (length s - length t) s) # g')) (rmatch n a (s, g))"
| "rmatch 0 (Star a) st = [st]"
| "rmatch (Suc n) (Star a) (s, g) =
     concat (map (\<lambda>(t, g'). if length t < length s then rmatch n (Star a) (t, g') else [])
               (rmatch (Suc n) a (s, g)))
       @ [(s, g)]"

fun search_from :: "rx \<Rightarrow> string \<Rightarrow> (nat \<times> string) list option" where
  "search_from r [] = (case rmatch 0 r ([], []) of [] \<Rightarrow> None | (t, g) # _ \<Rightarrow> Some g)"
| "search_from r (c # cs) =
     (case rmatch (Suc (length cs)) r (c # cs, []) of
        [] \<Rightarrow> search_from r cs
      | (t, g) # _ \<Rightarrow> Some g)"

definition re_search :: "rx \<Rightarrow> string \<Rightarrow> (nat \<times> string) list option" where
  "re_search r s = search_from r s"

text \<open>
  \<open>match.group(k)\<close>, and the notation of patterns: a literal, alternatives, \<open>r?\<close>,
  \<open>r+\<close>, a sequence, \<open>\d\<close>, \<open>\s\<close>, \<open>[a-z]\<close> and \<open>[A-Za-z]\<close>.
\<close>

definition group :: "(nat \<times> string) list \<Rightarrow> nat \<Rightarrow> string" where
  "group g k = (case map_of g k of Some s \<Rightarrow> s | None \<Rightarrow> [])"

definition lit :: "string \<Rightarrow> rx" where
  "lit s = foldr (\<lambda>c r. Seq (Chr c) r) s Eps"

fun alts :: "rx list \<Rightarrow> rx" where
  "alts [] = Cls []"
| "alts [r] = r"
| "alts (r # rs) = Alt r (alts rs)"

definition opt :: "rx \<Rightarrow> rx" where
  "opt r = Alt r Eps"

definition plus :: "rx \<Rightarrow> rx" where
  "plus r = Seq r (Star r)"

fun seqs :: "rx list \<Rightarrow> rx" where
  "seqs [] = Eps"
| "seqs [r] = r"
| "seqs (r # rs) = Seq r (seqs rs)"

definition digit :: rx where
  "digit = Cls ''0123456789''"

definition space :: rx where
  "space = Cls [CHR '' '', CHR 0x09, CHR 0x0A, CHR 0x0B, CHR 0x0C, CHR 0x0D,
                CHR 0x1C, CHR 0x1D, CHR 0x1E, CHR 0x1F]"

definition lower_letter :: rx where
  "lower_letter = Cls ''abcdefghijklmnopqrstuvwxyz''"

definition letter :: rx where
  "letter = Cls ''ABCDEFGHIJKLMNOPQRSTUVWXYZabcdefghijklmnopqrstuvwxyz''"

subsection \<open>Intent (\<open>QueryProcessor._identify_intent\<close>)\<close>

text \<open>
  \<open>INTENT_PATTERNS\<close> in the order of the dict; \<open>pric\<close> is \<open>pric(?:e|es|ing)\<close> and
  \<open>rat\<close> is \<open>rat(?:e|es)\<close>. \<open>location_pattern\<close> is \<open>PARAMETER_PATTERNS["location"]\<close>,
  \<open>fuel_keyword_pattern\<close> is \<open>fuel|gas|petrol|price\<close>, \<open>days_ago_pattern\<close> is
  \<open>PARAMETER_PATTERNS["days_ago"]\<close>.
\<close>

definition pric :: rx where
  "pric = Seq (lit ''pric'') (alts [lit ''e'', lit ''es'', lit ''ing''])"

definition rat :: rx where
  "rat = Seq (lit ''rat'') (alts [lit ''e'', lit ''es''])"

definition INTENT_PATTERNS :: "(string \<times> rx list) list" where
  "INTENT_PATTERNS =
     [(''oil_price'',
         [seqs [lit ''oil'', plus space, pric],
          seqs [lit ''crude'', plus space, lit ''oil''],
          lit ''brent'',
          seqs [lit ''petroleum'', plus space, pric],
          seqs [lit ''fuel'', plus space, pric],
          seqs [lit ''gas'', plus space, pric],
          seqs [lit ''petrol'', plus space, pric]]),
      (''fx_rates'',
         [seqs [alts [lit ''fx'', lit ''foreign exchange'', lit ''currency''], plus space, rat],
          seqs [lit ''exchange'', plus space, rat],
          seqs [lit ''currency'', plus space, lit ''conversion'']]),
      (''weather'',
         [Seq (lit ''weather'') (opt (Seq (plus space) (lit ''forecast''))),
          lit ''temperature'',
          alts [lit ''rain'', lit ''snow'', lit ''precipitation''],
          lit ''forecast''])]"

definition word :: rx where
  "word = Seq letter (plus lower_letter)"

definition location_pattern :: rx where
  "location_pattern =
     seqs [alts [lit ''in'', lit ''at'', lit ''for'', lit ''of''], plus space,
           Grp 1 (Seq word (Star (Seq (plus space) word)))]"

definition fuel_keyword_pattern :: rx where
  "fuel_keyword_pattern = alts [lit ''fuel'', lit ''gas'', lit ''petrol'', lit ''price'']"

definition days_ago_pattern :: rx where
  "days_ago_pattern =
     seqs [Grp 1 (plus digit), plus space, lit ''day'', opt (lit ''s''), plus space, lit ''ago'']"

text \<open>
  The two nested loops of \<open>_identify_intent\<close> return the first intent one of whose
  patterns is found in the lowercased query; then comes the guess from a location
  together with a fuel or price word.
\<close>

fun first_intent :: "(string \<times> rx list) list \<Rightarrow> string \<Rightarrow> string option" where
  "first_intent [] query_lower = None"
| "first_intent ((intent, patterns) # rest) query_lower =
     (if \<exists>pattern \<in> set patterns. re_search pattern query_lower \<noteq> None then Some intent
      else first_intent rest query_lower)"

definition identify_intent :: "string \<Rightarrow> string" where
  "identify_intent query =
     (let query_lower = lower query
      in (case first_intent INTENT_PATTERNS query_lower of
            Some intent \<Rightarrow> intent
          | None \<Rightarrow>
              if re_search location_pattern query \<noteq> None
                 \<and> re_search fuel_keyword_pattern query_lower \<noteq> None
              then ''oil_price''
              else ''unknown''))"

subsection \<open>Parameters (\<open>QueryProcessor._extract_parameters\<close>)\<close>

text \<open>
  \<open>icase r\<close> is \<open>r\<close> under \<open>re.IGNORECASE\<close>. The date patterns are the alternatives of
  \<open>PARAMETER_PATTERNS["date_range"]\<close> and \<open>["single_date"]\<close>; \<open>month_name_pattern\<close> is
  the month pattern of \<open>_normalize_date\<close>, which \<open>analyze_query\<close> searches again (without
  groups) for the end of a range.
\<close>

definition upper_char :: "char \<Rightarrow> char" where
  "upper_char c =
     (case map_of (zip ''abcdefghijklmnopqrstuvwxyz'' ''ABCDEFGHIJKLMNOPQRSTUVWXYZ'') c of
        Some d \<Rightarrow> d
      | None \<Rightarrow> c)"

fun icase :: "rx \<Rightarrow> rx" where
  "icase Eps = Eps"
| "icase (Chr c) = Cls [c, lower_char c, upper_char c]"
| "icase (Cls cs) = Cls (cs @ map lower_char cs @ map upper_char cs)"
| "icase (Seq a b) = Seq (icase a) (icase b)"
| "icase (Alt a b) = Alt (icase a) (icase b)"
| "icase (Star a) = Star (icase a)"
| "icase (Grp k a) = Grp k (icase a)"

definition month_abbr :: rx where
  "month_abbr =
     alts [lit ''Jan'', lit ''Feb'', lit ''Mar'', lit ''Apr'', lit ''May'', lit ''Jun'',
           lit ''Jul'', lit ''Aug'', lit ''Sep'', lit ''Oct'', lit ''Nov'', lit ''Dec'']"

definition iso_date :: rx where
  "iso_date = seqs [digit, digit, digit, digit, Chr CHR ''-'', digit, digit, Chr CHR ''-'',
                    digit, digit]"

definition slash_date :: rx where
  "slash_date = seqs [digit, opt digit, Chr CHR ''/'', digit, opt digit, Chr CHR ''/'',
                      digit, digit, opt (Seq digit (opt digit))]"

definition month_year :: rx where
  "month_year = seqs [month_abbr, Star lower_letter, opt (Chr CHR ''.''), plus space,
                      digit, digit, digit, digit]"

definition month_day_year :: rx where
  "month_day_year =
     seqs [month_abbr, Star lower_letter, opt (Chr CHR ''.''), plus space,
           digit, opt digit, opt (alts [lit ''st'', lit ''nd'', lit ''rd'', lit ''th'']),
           opt (Chr CHR '',''), plus space, digit, digit, digit, digit]"

definition date_range_pattern :: rx where
  "date_range_pattern =
     seqs [alts [lit ''from'', lit ''between''], plus space,
           Grp 1 (alts [iso_date, slash_date, month_year]), plus space,
           alts [lit ''to'', lit ''and'', lit ''until'', lit ''-''], plus space,
           Grp 2 (alts [iso_date, slash_date, month_year])]"

definition single_date_pattern :: rx where
  "single_date_pattern =
     seqs [alts [lit ''on'', lit ''at'', lit ''for''], plus space,
           Grp 1 (alts [iso_date, slash_date, month_day_year])]"

definition timeframe_pattern :: rx where
  "timeframe_pattern =
     seqs [alts [lit ''last'', lit ''past''], plus space, Grp 1 (plus digit), plus space,
           Grp 2 (alts [Seq (lit ''day'') (opt (lit ''s'')), Seq (lit ''week'') (opt (lit ''s'')),
                        Seq (lit ''month'') (opt (lit ''s'')), Seq (lit ''year'') (opt (lit ''s''))])]"

definition month_name_pattern :: rx where
  "month_name_pattern =
     icase (seqs [Grp 1 month_abbr, Star lower_letter, opt (Chr CHR ''.''), plus space,
                  Grp 2 (seqs [digit, digit, digit, digit])])"

text \<open>
  \<open>word_search country text\<close> is \<open>re.search(r'\b' + country + r'\b', text)\<close> for a country
  key, which starts and ends with a letter: an occurrence with no word character before
  and none after it.
\<close>

definition is_word_char :: "char \<Rightarrow> bool" where
  "is_word_char c =
     List.member ''ABCDEFGHIJKLMNOPQRSTUVWXYZabcdefghijklmnopqrstuvwxyz0123456789_'' c"

fun word_search_from :: "string \<Rightarrow> bool \<Rightarrow> string \<Rightarrow> bool" where
  "word_search_from w prev [] = False"
| "word_search_from w prev (c # cs) =
     ((\<not> prev \<and> take (length w) (c # cs) = w
        \<and> (case drop (length w) (c # cs) of [] \<Rightarrow> True | d # _ \<Rightarrow> \<not> is_word_char d))
      \<or> word_search_from w (is_word_char c) cs)"

definition word_search :: "string \<Rightarrow> string \<Rightarrow> bool" where
  "word_search w s = word_search_from w False s"

text \<open>
  The dict \<open>_extract_parameters\<close> returns has at most one of the keys \<open>date_range\<close>,
  \<open>single_date\<close>, \<open>days_ago\<close> and \<open>timeframe\<close> (an \<open>if\<close>/\<open>elif\<close> chain), and may have
  \<open>location\<close>: the first group of the location pattern, or else the first key of
  \<open>COUNTRY_FUEL_DATA\<close> that stands as a word in the lowercased query.
\<close>

datatype temporal =
    DateRange string string | SingleDate string | DaysAgo string | Timeframe string string
  | NoTemporal

record extracted =
  x_temporal :: temporal
  x_location :: "string option"

fun first_country :: "string list \<Rightarrow> string \<Rightarrow> string option" where
  "first_country [] s = None"
| "first_country (country # rest) s =
     (if word_search country s then Some country else first_country rest s)"

definition extract_parameters :: "string \<Rightarrow> extracted" where
  "extract_parameters query =
     \<lparr> x_temporal =
         (case re_search date_range_pattern query of
            Some g \<Rightarrow> DateRange (group g 1) (group g 2)
          | None \<Rightarrow>
         (case re_search single_date_pattern query of
            Some g \<Rightarrow> SingleDate (group g 1)
          | None \<Rightarrow>
         (case re_search days_ago_pattern query of
            Some g \<Rightarrow> DaysAgo (group g 1)
          | None \<Rightarrow>
         (case re_search timeframe_pattern query of
            Some g \<Rightarrow> Timeframe (group g 1) (group g 2)
          | None \<Rightarrow> NoTemporal)))),
       x_location =
         (case re_search location_pattern query of
            Some g \<Rightarrow> Some (group g 1)
          | None \<Rightarrow> first_country [''germany'', ''usa'', ''uk''] (lower query)) \<rparr>"

subsection \<open>Dates and the analysis (\<open>QueryProcessor.analyze_query\<close>)\<close>

text \<open>
  \<open>str.split(sep)\<close>, \<open>str.zfill(2)\<close>, the dict \<open>month_names\<close> and
  \<open>_normalize_date(date_str)\<close>, which returns a string it cannot read as it is.
\<close>

fun split_on :: "char \<Rightarrow> string \<Rightarrow> string list" where
  "split_on sep [] = [[]]"
| "split_on sep (c # cs) =
     (if c = sep then [] # split_on sep cs
      else (case split_on sep cs of
              w # ws \<Rightarrow> (c # w) # ws
            | [] \<Rightarrow> [[c]]))"

definition zfill2 :: "string \<Rightarrow> string" where
  "zfill2 s =
     (if 2 \<le> length s then s
      else if s = ''+'' \<or> s = ''-'' then s @ ''0''
      else replicate (2 - length s) CHR ''0'' @ s)"

definition month_names :: "string \<Rightarrow> string option" where
  "month_names =
     map_of [(''jan'', ''01''), (''january'', ''01''), (''feb'', ''02''), (''february'', ''02''),
             (''mar'', ''03''), (''march'', ''03''), (''apr'', ''04''), (''april'', ''04''),
             (''may'', ''05''), (''jun'', ''06''), (''june'', ''06''), (''jul'', ''07''),
             (''july'', ''07''), (''aug'', ''08''), (''august'', ''08''), (''sep'', ''09''),
             (''september'', ''09''), (''oct'', ''10''), (''october'', ''10''),
             (''nov'', ''11''), (''november'', ''11''), (''dec'', ''12''), (''december'', ''12'')]"

definition normalize_date :: "string \<Rightarrow> string" where
  "normalize_date date_str =
     (let parts = split_on CHR ''/'' date_str
      in if List.member date_str CHR ''/'' \<and> length parts = 3 then
           (let month = parts ! 0; day = parts ! 1; year = parts ! 2;
                year = (if length year = 2 then ''20'' @ year else year)
            in year @ ''-'' @ zfill2 month @ ''-'' @ zfill2 day)
         else
           (case re_search month_name_pattern date_str of
              Some g \<Rightarrow>
                (case month_names (lower (group g 1)) of
                   Some mm \<Rightarrow> group g 2 @ ''-'' @ mm @ ''-01''
                 | None \<Rightarrow> date_str)
            | None \<Rightarrow> date_str))"

text \<open>
  \<open>int\<close> on a string of digits (\<open>None\<close> where it raises \<open>ValueError\<close>), \<open>t in s\<close> on
  strings, and \<open>str.endswith\<close>.
\<close>

definition py_int :: "string \<Rightarrow> int option" where
  "py_int s = (if s = [] then None else map_option int (digits_value 0 s))"

fun py_in :: "string \<Rightarrow> string \<Rightarrow> bool" where
  "py_in t [] = (t = [])"
| "py_in t (c # cs) = (take (length t) (c # cs) = t \<or> py_in t cs)"

definition endswith :: "string \<Rightarrow> string \<Rightarrow> bool" where
  "endswith s suffix = (length suffix \<le> length s \<and> drop (length s - length suffix) s = suffix)"

text \<open>
  The dict \<open>analyze_query\<close> returns. After the date keys are resolved, every value of
  \<open>parameters\<close> is a string.
\<close>

record query_analysis =
  qa_intent :: string
  qa_parameters :: "string \<rightharpoonup> string"
  qa_original_query :: string

text \<open>
  The end of a range given as a month: year and month are split off the normalised date
  and the day becomes \<open>calendar.monthrange(int(year), int(month))[1]\<close>.
\<close>

definition month_end :: "string \<Rightarrow> py_error + string" where
  "month_end end_date_normalized =
     (case split_on CHR ''-'' end_date_normalized of
        year # month # _ \<Rightarrow>
          (case (py_int year, py_int month) of
             (Some y, Some m) \<Rightarrow>
               if 1 \<le> m \<and> m \<le> 12
               then Inr (year @ ''-'' @ month @ ''-'' @ digits_of 2 (nat (days_in_month y m)))
               else Inl ValueError
           | _ \<Rightarrow> Inl ValueError)
      | _ \<Rightarrow> Inl ValueError)"

text \<open>
  The date keys of \<open>analyze_query\<close>, one branch for each temporal key. The subtraction
  of a \<open>timedelta\<close> from today's date raises \<open>OverflowError\<close> when it leaves the range
  of dates; the source has no handler around it.
\<close>

definition temporal_parameters :: "app_runtime \<Rightarrow> temporal \<Rightarrow> py_error + (string \<rightharpoonup> string)" where
  "temporal_parameters rt t =
     (case t of
        DateRange start_date end_date \<Rightarrow>
          (let end_date_normalized = normalize_date end_date
           in (case (if endswith end_date_normalized ''-01''
                        \<and> re_search month_name_pattern end_date \<noteq> None
                     then month_end end_date_normalized
                     else Inr end_date_normalized) of
                 Inl err \<Rightarrow> Inl err
               | Inr end_date_normalized \<Rightarrow>
                   Inr [''start_date'' \<mapsto> normalize_date start_date,
                        ''end_date'' \<mapsto> end_date_normalized]))
      | SingleDate date \<Rightarrow> Inr [''date'' \<mapsto> normalize_date date]
      | DaysAgo days_ago \<Rightarrow>
          (case py_int days_ago of
             None \<Rightarrow> Inl ValueError
           | Some days \<Rightarrow>
               (case date_minus_days (rt_today rt) days of
                  Inl err \<Rightarrow> Inl err
                | Inr start_date \<Rightarrow>
                    Inr [''start_date'' \<mapsto> rt_isoformat rt start_date,
                         ''end_date'' \<mapsto> rt_isoformat rt (rt_today rt)]))
      | Timeframe count unit \<Rightarrow>
          (case py_int count of
             None \<Rightarrow> Inl ValueError
           | Some count \<Rightarrow>
               (case (if py_in ''day'' unit then Inr count
                      else if py_in ''week'' unit then Inr (7 * count)
                      else if py_in ''month'' unit then Inr (count * 30)
                      else if py_in ''year'' unit then Inr (count * 365)
                      else Inl UnboundLocalError) of
                  Inl err \<Rightarrow> Inl err
                | Inr delta \<Rightarrow>
                    (case date_minus_days (rt_today rt) delta of
                       Inl err \<Rightarrow> Inl err
                     | Inr start_date \<Rightarrow>
                         Inr [''start_date'' \<mapsto> rt_isoformat rt start_date,
                              ''end_date'' \<mapsto> rt_isoformat rt (rt_today rt)])))
      | NoTemporal \<Rightarrow> Inr Map.empty)"

text \<open>
  The country aliases of \<open>analyze_query\<close>; a location that is no alias is kept as it was
  written.
\<close>

definition normalize_location :: "string \<Rightarrow> string" where
  "normalize_location loc =
     (let location = lower loc
      in if List.member [''usa'', ''united states'', ''america'', ''us''] location then ''usa''
         else if List.member [''uk'', ''united kingdom'', ''britain'', ''england''] location then ''uk''
         else if List.member [''germany'', ''deutschland''] location then ''germany''
         else loc)"

text \<open>
  \<open>analyze_query(query)\<close>: intent, parameters, the date keys, the location, and the
  default window of 30 days when neither \<open>start_date\<close> nor \<open>date\<close> is there.
\<close>

definition analyze_query :: "app_runtime \<Rightarrow> string \<Rightarrow> py_error + query_analysis" where
  "analyze_query rt query =
     (let intent = identify_intent query;
          extracted = extract_parameters query
      in (case temporal_parameters rt (x_temporal extracted) of
            Inl err \<Rightarrow> Inl err
          | Inr parameters \<Rightarrow>
              (let parameters =
                     (case x_location extracted of
                        None \<Rightarrow> parameters
                      | Some loc \<Rightarrow> parameters(''location'' \<mapsto> normalize_location loc))
               in (case (if parameters ''start_date'' = None \<and> parameters ''date'' = None
                         then (case date_minus_days (rt_today rt) 30 of
                                 Inl err \<Rightarrow> Inl err
                               | Inr start_date \<Rightarrow>
                                   Inr (parameters(''start_date'' \<mapsto> rt_isoformat rt start_date,
                                                   ''end_date'' \<mapsto> rt_isoformat rt (rt_today rt))))
                         else Inr parameters) of
                     Inl err \<Rightarrow> Inl err
                   | Inr parameters \<Rightarrow>
                       Inr \<lparr> qa_intent = intent,
                             qa_parameters = parameters,
                             qa_original_query = query \<rparr>))))"

text \<open>
  \<open>DynamicDataModel.process_query(query)\<close>. The analysis runs first and outside any
  \<open>try\<close>. The two later stages, \<open>fetch_data\<close> and \<open>generate_response\<close>, are the
  parameter \<open>fetch_and_respond\<close>, from the analysis to the response: the statement proved
  about \<open>process_query\<close> below is about a query that never reaches them.
\<close>

record 'r query_result =
  q_query :: string
  q_analysis :: query_analysis
  q_response :: 'r

definition process_query ::
  "app_runtime \<Rightarrow> (query_analysis \<Rightarrow> 'r) \<Rightarrow> string \<Rightarrow> py_error + 'r query_result" where
  "process_query rt fetch_and_respond query =
     (case analyze_query rt query of
        Inl err \<Rightarrow> Inl err
      | Inr query_analysis \<Rightarrow>
          Inr \<lparr> q_query = query,
                q_analysis = query_analysis,
                q_response = fetch_and_respond query_analysis \<rparr>)"

text \<open>
  The \<open>"intent"\<close> entry of the dict that \<open>parse_query_fallback(question)\<close> of
  \<open>mcp_tools.py\<close> returns: three groups of words looked for in the lowercased question,
  and \<open>oil_price\<close> as the default. The rest of that function does not change the entry.
\<close>

definition parse_query_fallback_intent :: "string \<Rightarrow> string" where
  "parse_query_fallback_intent question =
     (let question_lower = lower question
      in if \<exists>t \<in> set [''oil'', ''crude'', ''price'', ''brent'', ''fuel'', ''gas'', ''petrol''].
              py_in t question_lower
         then ''oil_price''
         else if \<exists>t \<in> set [''fx'', ''exchange'', ''currency'', ''rate'']. py_in t question_lower
         then ''fx_rates''
         else if \<exists>t \<in> set [''weather'', ''temperature'', ''rain'', ''forecast''].
                   py_in t question_lower
         then ''weather''
         else ''oil_price'')"

section \<open>Theorems\<close>

subsection \<open>Evaluating float operations\<close>

lemma pow2_powr: "pow2 k = 2 powr (of_int k)"
  by (simp add: pow2_def powr_real_of_int inverse_eq_divide)

lemma pow2_pos: "0 < pow2 k"
  by (simp add: pow2_powr)

lemma pow2_add: "pow2 (a + b) = pow2 a * pow2 b"
  by (simp add: pow2_powr powr_add)

lemma pow2_mono: "a \<le> b \<Longrightarrow> pow2 a \<le> pow2 b"
  by (simp add: pow2_powr)

lemma pow2_53: "pow2 (k + 1) = 2 ^ 53 * pow2 (k - 52)"
proof -
  have "pow2 53 = 2 ^ 53" by (simp add: pow2_def)
  moreover have "53 + (k - 52) = k + 1" by simp
  ultimately show ?thesis using pow2_add [of 53 "k - 52"] by (simp add: add.commute)
qed

lemma quantum_eq:
  assumes "pow2 k \<le> \<bar>x\<bar>" "\<bar>x\<bar> < pow2 (k + 1)"
  shows "quantum x = max k (- 1022) - 52"
proof -
  have "0 < \<bar>x\<bar>" using assms(1) pow2_pos [of k] by linarith
  then have "\<lfloor>log 2 \<bar>x\<bar>\<rfloor> = k"
    using assms by (subst floor_log_eq_powr_iff) (simp_all add: pow2_powr)
  then show ?thesis by (simp add: quantum_def)
qed

lemma round_half_even_bounds: "\<bar>of_int (round_half_even x) - x\<bar> \<le> 1 / 2"
  unfolding round_half_even_def Let_def by (auto simp add: abs_le_iff; linarith)

lemma int_abs_bound:
  fixes m :: int
  assumes "\<bar>real_of_int m\<bar> < 2 ^ 53 + 1"
  shows "\<bar>real_of_int m\<bar> \<le> 2 ^ 53"
proof -
  have "real_of_int \<bar>m\<bar> < real_of_int (2 ^ 53 + 1)" using assms by simp
  then have "\<bar>m\<bar> < 2 ^ 53 + 1" by (simp only: of_int_less_iff)
  then have "\<bar>m\<bar> \<le> 2 ^ 53" by simp
  then have "real_of_int \<bar>m\<bar> \<le> real_of_int (2 ^ 53)" by (simp only: of_int_le_iff)
  then show ?thesis by simp
qed

text \<open>
  The float of a real number whose leading bit is known: for \<open>2 ^ k \<le> |x| < 2 ^ (k + 1)\<close>
  in the normal range, \<open>x\<close> is rounded to a multiple of \<open>2 ^ (k - 52)\<close>.
\<close>

lemma to_float_eval:
  assumes "pow2 k \<le> \<bar>x\<bar>" "\<bar>x\<bar> < pow2 (k + 1)" "- 1022 \<le> k" "k \<le> 1022"
  shows "to_float x = Fin (of_int (round_half_even (x / pow2 (k - 52))) * pow2 (k - 52))"
proof -
  define z where "z = x / pow2 (k - 52)"
  define m where "m = round_half_even z"
  define p where "p = pow2 (k - 52)"
  have p0: "0 < p" by (simp add: p_def pow2_pos)
  have q: "quantum x = k - 52"
    using quantum_eq [OF assms(1,2)] assms(3) by simp
  have x0: "x \<noteq> 0" using assms(1) pow2_pos [of k] by auto
  have "\<bar>x\<bar> < 2 ^ 53 * p"
    using assms(2) by (simp add: pow2_53 p_def)
  then have "\<bar>z\<bar> < 2 ^ 53"
    using p0 by (simp add: z_def p_def [symmetric] divide_less_eq)
  moreover have "\<bar>of_int m - z\<bar> \<le> 1 / 2"
    unfolding m_def by (rule round_half_even_bounds)
  ultimately have "\<bar>real_of_int m\<bar> < 2 ^ 53 + 1" by linarith
  then have "\<bar>real_of_int m\<bar> \<le> 2 ^ 53" by (rule int_abs_bound)
  then have "\<bar>real_of_int m\<bar> * p \<le> 2 ^ 53 * p"
    using p0 by (intro mult_right_mono) simp_all
  then have "\<bar>real_of_int m * p\<bar> \<le> pow2 (k + 1)"
    using p0 by (simp add: abs_mult pow2_53 p_def)
  also have "\<dots> \<le> pow2 1023"
    using assms(4) by (intro pow2_mono) simp
  also have "\<dots> < 2 ^ 1024"
    by (simp add: pow2_def)
  finally have "\<bar>real_of_int m * p\<bar> < 2 ^ 1024" .
  then have "\<not> 2 ^ 1024 \<le> real_of_int m * p"
    "\<not> real_of_int m * p \<le> - (2 ^ 1024)"
    by linarith+
  then show ?thesis
    using x0 unfolding to_float_def fl_round_def q Let_def m_def z_def p_def by simp
qed

lemma to_float_zero: "to_float 0 = Fin 0"
  by (simp add: to_float_def fl_round_def)

subsection \<open>Retail price\<close>

lemma table_cases:
  "COUNTRY_FUEL_DATA c = Some cfg \<Longrightarrow> cfg = germany_cfg \<or> cfg = usa_cfg \<or> cfg = uk_cfg"
  by (auto simp add: COUNTRY_FUEL_DATA_def split: if_splits)

lemma crude_conversion_nonzero:
  "COUNTRY_FUEL_DATA c = Some cfg \<Longrightarrow> crude_conversion cfg \<noteq> Fin 0"
  using table_cases [of c cfg] by (auto simp add: germany_cfg_def usa_cfg_def uk_cfg_def)

lemma compute_retail_price_spec:
  assumes "COUNTRY_FUEL_DATA c = Some cfg"
  shows "map_sum id (map_option r_price) (compute_retail_price b c)
           = Inr (Some (spec_retail_price b cfg None))"
  using assms crude_conversion_nonzero [OF assms]
  by (simp add: compute_retail_price_def spec_retail_price_def spec_local_price_def
      py_truediv_def Let_def)

lemma fuel_price_spec:
  assumes cfg: "COUNTRY_FUEL_DATA (lower country) = Some cfg"
    and data: "oil_data \<noteq> []"
    and latest: "e_value (last oil_data) = PyNum b
                 \<or> (\<exists>s. e_value (last oil_data) = PyStr s \<and> pyfloat s = Some b)"
  shows "map_sum id fp_price (fuel_price pyfloat (Inr oil_data) (Inr fx_data) country)
           = Inr (spec_retail_price b cfg (Some (fuel_price_fx cfg fx_data)))"
  using assms crude_conversion_nonzero [OF cfg]
  by (auto simp add: fuel_price_def spec_retail_price_def spec_local_price_def
      fuel_price_fx_def py_truediv_def Let_def split: option.splits)

lemma usa_example:
  "spec_retail_price (Fin 80) usa_cfg None = to_float 2.37"
  "spec_retail_price (Fin 80) usa_cfg (Some (Fin 1)) = to_float 2.37"
  by (simp_all add: spec_retail_price_def spec_local_price_def usa_cfg_def to_float_zero
      to_float_eval [of 0] to_float_eval [of 1] to_float_eval [of 4] to_float_eval [of 6]
      to_float_eval [of "- 3"] pow2_def round_half_even_def)

text \<open>
  C1. For every benchmark price (a float) and every country of the table, the retail
  price of \<open>_compute_retail_price\<close> is (benchmark * price_factor) / crude_conversion,
  then times 1 + tax_rate/100, then times 1 + vat/100, each step one float operation in
  this order, rounded to two decimals; the \<open>fuel_price\<close> endpoint, which has an
  exchange rate, multiplies by it before rounding; and for the benchmark 80.00 with the
  usa profile and the rate 1.0 the result is the float 2.37.
\<close>

theorem C1_retail_price_formula:
  "(COUNTRY_FUEL_DATA c = Some cfg \<longrightarrow>
      map_sum id (map_option r_price) (compute_retail_price b c)
        = Inr (Some (py_round2
            (fmul (fmul (fdiv (fmul b (price_factor cfg)) (crude_conversion cfg))
                        (fadd (Fin 1) (fdiv (tax_rate cfg) (Fin 100))))
                  (fadd (Fin 1) (fdiv (vat cfg) (Fin 100)))))))
   \<and> (COUNTRY_FUEL_DATA (lower country) = Some cfg' \<and> oil_data \<noteq> []
        \<and> (e_value (last oil_data) = PyNum b
             \<or> (\<exists>s. e_value (last oil_data) = PyStr s \<and> pyfloat s = Some b)) \<longrightarrow>
      map_sum id fp_price (fuel_price pyfloat (Inr oil_data) (Inr fx_data) country)
        = Inr (py_round2
            (fmul (fmul (fmul (fdiv (fmul b (price_factor cfg')) (crude_conversion cfg'))
                              (fadd (Fin 1) (fdiv (tax_rate cfg') (Fin 100))))
                        (fadd (Fin 1) (fdiv (vat cfg') (Fin 100))))
                  (fuel_price_fx cfg' fx_data))))
   \<and> COUNTRY_FUEL_DATA ''usa'' = Some usa_cfg
   \<and> price_factor usa_cfg = to_float 1.05 \<and> crude_conversion usa_cfg = Fin 42
   \<and> tax_rate usa_cfg = to_float 18.4 \<and> vat usa_cfg = Fin 0
   \<and> map_sum id (map_option r_price) (compute_retail_price (Fin 80) ''usa'')
        = Inr (Some (to_float 2.37))
   \<and> map_sum id fp_price
        (fuel_price pyfloat (Inr [\<lparr>e_date = d, e_value = PyNum (Fin 80)\<rparr>]) (Inr fx_data) ''usa'')
        = Inr (to_float 2.37)"
proof -
  have usa: "COUNTRY_FUEL_DATA ''usa'' = Some usa_cfg"
    by (simp add: COUNTRY_FUEL_DATA_def)
  have low: "lower ''usa'' = ''usa''"
    by (simp add: lower_def lower_char_def)
  have fx: "fuel_price_fx usa_cfg fx_data = Fin 1"
    by (simp add: fuel_price_fx_def usa_cfg_def)
  have 1: "COUNTRY_FUEL_DATA c = Some cfg \<longrightarrow>
      map_sum id (map_option r_price) (compute_retail_price b c)
        = Inr (Some (py_round2
            (fmul (fmul (fdiv (fmul b (price_factor cfg)) (crude_conversion cfg))
                        (fadd (Fin 1) (fdiv (tax_rate cfg) (Fin 100))))
                  (fadd (Fin 1) (fdiv (vat cfg) (Fin 100))))))"
    using compute_retail_price_spec [of c cfg b]
    by (simp add: spec_retail_price_def spec_local_price_def)
  have 2: "COUNTRY_FUEL_DATA (lower country) = Some cfg' \<and> oil_data \<noteq> []
        \<and> (e_value (last oil_data) = PyNum b
             \<or> (\<exists>s. e_value (last oil_data) = PyStr s \<and> pyfloat s = Some b)) \<longrightarrow>
      map_sum id fp_price (fuel_price pyfloat (Inr oil_data) (Inr fx_data) country)
        = Inr (py_round2
            (fmul (fmul (fmul (fdiv (fmul b (price_factor cfg')) (crude_conversion cfg'))
                              (fadd (Fin 1) (fdiv (tax_rate cfg') (Fin 100))))
                        (fadd (Fin 1) (fdiv (vat cfg') (Fin 100))))
                  (fuel_price_fx cfg' fx_data)))"
    using fuel_price_spec [of country cfg' oil_data b pyfloat fx_data]
    by (simp add: spec_retail_price_def spec_local_price_def)
  have 3: "price_factor usa_cfg = to_float 1.05 \<and> crude_conversion usa_cfg = Fin 42
   \<and> tax_rate usa_cfg = to_float 18.4 \<and> vat usa_cfg = Fin 0"
    by (simp add: usa_cfg_def to_float_zero)
  have 4: "map_sum id (map_option r_price) (compute_retail_price (Fin 80) ''usa'')
        = Inr (Some (to_float 2.37))"
    using compute_retail_price_spec [OF usa, of "Fin 80"] usa_example(1) by simp
  have 5: "map_sum id fp_price
        (fuel_price pyfloat (Inr [\<lparr>e_date = d, e_value = PyNum (Fin 80)\<rparr>]) (Inr fx_data) ''usa'')
        = Inr (to_float 2.37)"
    using fuel_price_spec [of "''usa''" usa_cfg "[\<lparr>e_date = d, e_value = PyNum (Fin 80)\<rparr>]"
        "Fin 80" pyfloat fx_data] usa low fx usa_example(2)
    by simp
  show ?thesis
    using 1 2 3 4 5 usa by blast
qed

theorem C1_retail_price_formula_witness:
  "map_sum id (map_option r_price) (compute_retail_price (to_float 93.75) ''usa'')
     = Inr (Some (to_float 2.77))
   \<and> map_sum id fp_price
        (fuel_price float_decimal
           (Inr [\<lparr>e_date = ''2024-05-01'', e_value = PyStr ''100''\<rparr>])
           (Inr [''GBP'' \<mapsto> to_float 0.79]) ''UK'')
        = Inr (to_float 1.04)"
proof -
  have usa: "COUNTRY_FUEL_DATA ''usa'' = Some usa_cfg"
    by (simp add: COUNTRY_FUEL_DATA_def)
  have f: "float_decimal ''100'' = Some (Fin 100)"
    by (simp add: float_decimal_def digit_of_def Let_def to_float_eval [of 6] pow2_def
        round_half_even_def)
  have h: "COUNTRY_FUEL_DATA (lower ''UK'') = Some uk_cfg
        \<and> [\<lparr>e_date = ''2024-05-01'', e_value = PyStr ''100''\<rparr>] \<noteq> []
        \<and> (e_value (last [\<lparr>e_date = ''2024-05-01'', e_value = PyStr ''100''\<rparr>]) = PyNum (Fin 100)
             \<or> (\<exists>s. e_value (last [\<lparr>e_date = ''2024-05-01'', e_value = PyStr ''100''\<rparr>]) = PyStr s
                  \<and> float_decimal s = Some (Fin 100)))"
    using f by (simp add: COUNTRY_FUEL_DATA_def lower_def lower_char_def)
  note A = C1_retail_price_formula [THEN conjunct1, rule_format, OF usa]
  note B = C1_retail_price_formula [THEN conjunct2, THEN conjunct1, rule_format, OF h]
  have a: "py_round2
            (fmul (fmul (fdiv (fmul (to_float 93.75) (price_factor usa_cfg)) (crude_conversion usa_cfg))
                        (fadd (Fin 1) (fdiv (tax_rate usa_cfg) (Fin 100))))
                  (fadd (Fin 1) (fdiv (vat usa_cfg) (Fin 100)))) = to_float 2.77"
    by (simp add: usa_cfg_def to_float_zero
        to_float_eval [of 0] to_float_eval [of 1] to_float_eval [of 4] to_float_eval [of 6]
        to_float_eval [of "- 3"] pow2_def round_half_even_def)
  have b: "py_round2
            (fmul (fmul (fmul (fdiv (fmul (Fin 100) (price_factor uk_cfg)) (crude_conversion uk_cfg))
                              (fadd (Fin 1) (fdiv (tax_rate uk_cfg) (Fin 100))))
                        (fadd (Fin 1) (fdiv (vat uk_cfg) (Fin 100))))
                  (fuel_price_fx uk_cfg [''GBP'' \<mapsto> to_float 0.79])) = to_float 1.04"
    by (simp add: uk_cfg_def fuel_price_fx_def to_float_zero
        to_float_eval [of 0] to_float_eval [of 4] to_float_eval [of 5] to_float_eval [of 6]
        to_float_eval [of "- 1"] to_float_eval [of "- 3"] pow2_def round_half_even_def)
  show ?thesis
    using A [of "to_float 93.75"] B [of "[''GBP'' \<mapsto> to_float 0.79]"] a b by simp
qed

subsection \<open>Statistics\<close>





lemma percent_change_of_Inl:
  "percent_change_of (Fin 0) last_price = Inl ZeroDivisionError"
  by (simp add: percent_change_of_def py_truediv_def)






lemma calculate_statistics_numeric:
  assumes len: "2 \<le> length data"
    and nz: "p_value (hd data) \<noteq> Fin 0"
    and m: "mean statistics (map p_value data) = Inr m"
    and d: "median statistics (map p_value data) = Inr d"
    and sd: "stdev statistics (map p_value data) = Inr sd"
  shows "calculate_statistics statistics data =
           Inr (Some \<lparr> s_min = py_min (map p_value data), s_max = py_max (map p_value data),
                        s_mean = m, s_median = d,
                        s_range = fsub (py_max (map p_value data)) (py_min (map p_value data)),
                        s_start_price = p_value (hd data), s_end_price = p_value (last data),
                        s_percent_change =
                          py_round2 (fmul (fdiv (fsub (p_value (last data)) (p_value (hd data)))
                                                (p_value (hd data))) (Fin 100)),
                        s_volatility = py_round2 sd \<rparr>)"
proof -
  have "data \<noteq> []" using len by auto
  then have h: "hd (map p_value data) = p_value (hd data)"
    "last (map p_value data) = p_value (last data)"
    by (simp_all add: hd_map last_map)
  show ?thesis
    using len nz m d sd
    unfolding calculate_statistics_def Let_def h
    by (simp add: py_truediv_def)
qed








subsection \<open>Data access\<close>

lemma generate_mock_oil_data_length:
  assumes "rt_strptime rt start = Some s" and "rt_strptime rt end = Some e" and "s \<le> e"
  shows "\<exists>data. generate_mock_oil_data rt start end = Inr data
           \<and> length data = nat (e - s) + 1
           \<and> map e_date data = map (rt_strftime rt) [s..e]"
proof -
  have "map (\<lambda>i. s + int i) [0..<nat (e - s + 1)] = [s..e]"
    using assms(3)
    by (intro nth_equalityI) auto
  then have "map (\<lambda>i. rt_strftime rt (s + int i)) [0..<nat (e - s + 1)] = map (rt_strftime rt) [s..e]"
    by (metis (no_types, lifting) map_map comp_def map_eq_conv)
  then show ?thesis
    using assms by (simp add: generate_mock_oil_data_def Let_def comp_def nat_add_distrib)
qed

lemma split_comma_nonempty: "split_comma s \<noteq> []"
  by (induction s) (auto split: list.splits)

lemma fold_rates_other:
  "k \<notin> set xs \<or> \<not> P k \<Longrightarrow>
   fold (\<lambda>(i, s) m. if P s then m(s \<mapsto> f i) else m) (enumerate n xs) m0 k = m0 k"
  by (induction xs arbitrary: n m0) auto

lemma fold_rates_at:
  "i < length xs \<Longrightarrow> P (xs ! i) \<Longrightarrow> xs ! i \<notin> set (drop (Suc i) xs) \<Longrightarrow>
   fold (\<lambda>(i, s) m. if P s then m(s \<mapsto> f i) else m) (enumerate n xs) m0 (xs ! i)
     = Some (f (n + i))"
proof (induction xs arbitrary: n m0 i)
  case Nil
  then show ?case by simp
next
  case (Cons x xs)
  show ?case
  proof (cases i)
    case 0
    with Cons.prems show ?thesis
      using fold_rates_other [of x xs P f "Suc n" "m0(x \<mapsto> f n)"] by simp
  next
    case (Suc j)
    with Cons.prems Cons.IH [of j "Suc n"] show ?thesis by simp
  qed
qed

lemma generate_mock_fx_data_at:
  assumes "i < length (split_comma symbols)"
    and "split_comma symbols ! i \<notin> set (drop (Suc i) (split_comma symbols))"
  shows "generate_mock_fx_data symbols (split_comma symbols ! i) = Some (1.0 + real i * 0.1)"
  using fold_rates_at [of i "split_comma symbols" "\<lambda>_. True" "\<lambda>i. 1.0 + real i * 0.1" 0 Map.empty]
    assms
  by (simp add: generate_mock_fx_data_def)

lemma generate_mock_fx_data_dom:
  "dom (generate_mock_fx_data symbols) = set (split_comma symbols)"
proof -
  have "\<And>n m0. dom (fold (\<lambda>(i, symbol) mock_data. mock_data(symbol \<mapsto> 1.0 + real i * 0.1))
       (enumerate n xs) m0) = dom m0 \<union> set xs" for xs :: "string list"
    by (induction xs) auto
  then show ?thesis by (simp add: generate_mock_fx_data_def)
qed

lemma DataFetcher_rates_at:
  assumes "i < length (requested_symbols parameters)"
    and "requested_symbols parameters ! i
           \<noteq> fx_base (DataFetcher_generate_mock_fx_data parameters)"
    and "requested_symbols parameters ! i
           \<notin> set (drop (Suc i) (requested_symbols parameters))"
  shows "fx_rates (DataFetcher_generate_mock_fx_data parameters)
           (requested_symbols parameters ! i) = Some (1.0 + real i * 0.1)"
  using fold_rates_at [of i "requested_symbols parameters"
      "\<lambda>s. s \<noteq> (case parameters ''base_currency'' of Some b \<Rightarrow> b | None \<Rightarrow> ''USD'')"
      "\<lambda>i. 1.0 + real i * 0.1" 0 Map.empty] assms
  by (simp add: DataFetcher_generate_mock_fx_data_def Let_def)

lemma DataFetcher_rates_base:
  "fx_rates (DataFetcher_generate_mock_fx_data parameters)
     (fx_base (DataFetcher_generate_mock_fx_data parameters)) = None"
  using fold_rates_other [of
      "case parameters ''base_currency'' of Some b \<Rightarrow> b | None \<Rightarrow> ''USD''" _
      "\<lambda>s. s \<noteq> (case parameters ''base_currency'' of Some b \<Rightarrow> b | None \<Rightarrow> ''USD'')"
      "\<lambda>i. 1.0 + real i * 0.1" 0 Map.empty]
  by (simp add: DataFetcher_generate_mock_fx_data_def Let_def)

lemma demo_dates:
  "parse_iso ''2024-02-28'' = Some 738944" "parse_iso ''2024-03-01'' = Some 738946"
  "isoformat 738944 = ''2024-02-28''" "isoformat 738945 = ''2024-02-29''"
  "isoformat 738946 = ''2024-03-01''"
  by code_simp+

lemma compute_retail_price_returns:
  assumes "COUNTRY_FUEL_DATA c = Some cfg"
  shows "\<exists>retail. compute_retail_price b c = Inr (Some retail)"
  using assms crude_conversion_nonzero [OF assms]
  by (simp add: compute_retail_price_def py_truediv_def Let_def)

lemma DataFetcher_single_day_raises:
  assumes today: "30 < rt_today rt" "rt_today rt \<le> 3652059"
    and st: "parameters ''start_date'' = Some day"
    and en: "parameters ''end_date'' = Some day"
    and day: "rt_fromisoformat rt day = Some s"
    and loc: "parameters ''location'' = Some country"
    and cfg: "COUNTRY_FUEL_DATA country = Some cfg"
  shows "DataFetcher_generate_mock_oil_data rt statistics parameters = Inl TypeError"
proof -
  define data where "data = map (\<lambda>i.
                    \<lparr> p_date = rt_isoformat rt (s + int i),
                      p_value = py_round2 (fadd (fadd (to_float 80.0)
                                        (fmul (Fin (real (i mod 10))) (to_float 0.1)))
                                  (rt_random rt i)) \<rparr>)
                  [0..<nat (s - s + 1)]"
  have dm: "date_minus_days (rt_today rt) 30 = Inr (rt_today rt - 30)"
    using today by (simp add: date_minus_days_def)
  have len: "length data = 1" by (simp add: data_def)
  then have ne: "(data = []) = False" by auto
  have cs: "calculate_statistics statistics data = Inr None"
    using len by (simp add: calculate_statistics_def)
  obtain retail where r: "compute_retail_price (p_value (last data)) country = Inr (Some retail)"
    using compute_retail_price_returns [OF cfg] by blast
  show ?thesis
    unfolding DataFetcher_generate_mock_oil_data_def Let_def
    by (simp only: dm st en day loc cfg option.case sum.case prod.case option.map
        data_def [symmetric] cs ne if_False r)
qed

lemma DataFetcher_single_day_returns:
  assumes today: "30 < rt_today rt" "rt_today rt \<le> 3652059"
    and st: "parameters ''start_date'' = Some day"
    and en: "parameters ''end_date'' = Some day"
    and day: "rt_fromisoformat rt day = Some s"
    and loc: "parameters ''location'' = None"
  shows "\<exists>r. DataFetcher_generate_mock_oil_data rt statistics parameters = Inr r
           \<and> map p_date (m_data r) = [rt_isoformat rt s] \<and> m_stats r = None"
proof -
  have dm: "date_minus_days (rt_today rt) 30 = Inr (rt_today rt - 30)"
    using today by (simp add: date_minus_days_def)
  show ?thesis
    by (simp add: DataFetcher_generate_mock_oil_data_def Let_def dm st en day loc
        calculate_statistics_def)
qed

lemma mock_series_dates:
  assumes "s \<le> e"
  shows "map (\<lambda>i. f (s + int i)) [0..<nat (e - s + 1)] = map f [s..e]"
proof -
  have "map (\<lambda>i. s + int i) [0..<nat (e - s + 1)] = [s..e]"
    using assms by (intro nth_equalityI) auto
  then have "map f (map (\<lambda>i. s + int i) [0..<nat (e - s + 1)]) = map f [s..e]"
    by simp
  then show ?thesis by (simp add: comp_def)
qed

lemma DataFetcher_generate_mock_oil_data_dates:
  assumes ret: "DataFetcher_generate_mock_oil_data rt statistics parameters = Inr r"
    and st: "parameters ''start_date'' = Some start" "rt_fromisoformat rt start = Some s"
    and en: "parameters ''end_date'' = Some end" "rt_fromisoformat rt end = Some e"
    and le: "s \<le> e"
  shows "length (m_data r) = nat (e - s) + 1
         \<and> map p_date (m_data r) = map (rt_isoformat rt) [s..e]"
proof -
  define data where "data = map (\<lambda>i.
                    \<lparr> p_date = rt_isoformat rt (s + int i),
                      p_value = py_round2 (fadd (fadd (to_float 80.0)
                                        (fmul (Fin (real (i mod 10))) (to_float 0.1)))
                                  (rt_random rt i)) \<rparr>)
                  [0..<nat (e - s + 1)]"
  have len: "length data = nat (e - s) + 1"
    using le by (simp add: data_def nat_add_distrib)
  have dates: "map p_date data = map (rt_isoformat rt) [s..e]"
    using mock_series_dates [OF le, of "rt_isoformat rt"] by (simp add: data_def comp_def)
  have "m_data r = data"
    using ret
    unfolding DataFetcher_generate_mock_oil_data_def Let_def st en option.case
      data_def [symmetric]
    by (auto split: sum.splits option.splits if_splits)
  then show ?thesis using len dates by simp
qed

lemma DataFetcher_three_days_returns:
  "\<exists>r. DataFetcher_generate_mock_oil_data demo_app_runtime py_statistics three_days_usa = Inr r"
proof -
  define data where "data =
     [\<lparr> p_date = ''2024-02-28'', p_value = Fin (321 / 4) \<rparr>,
      \<lparr> p_date = ''2024-02-29'', p_value = Fin (2813694235943895 / 35184372088832) \<rparr>,
      \<lparr> p_date = ''2024-03-01'', p_value = Fin (5661165469093069 / 70368744177664) \<rparr>]"
  have u: "[0..<nat (738946 - 738944 + 1)] = [0, 1, 2]"
    by (simp add: upt_rec)
  have d: "map (\<lambda>i.
                    \<lparr> p_date = isoformat (738944 + int i),
                      p_value = py_round2 (fadd (fadd (to_float 80.0)
                                        (fmul (Fin (real (i mod 10))) (to_float 0.1)))
                                  (if even i then Fin 0.25 else Fin (- 0.125))) \<rparr>)
                  [0..<nat (738946 - 738944 + 1)] = data"
    unfolding u
    by (simp add: data_def demo_dates to_float_zero to_float_eval [of 6]
        to_float_eval [of "- 4"] to_float_eval [of "- 3"] pow2_def round_half_even_def)
  have dm: "date_minus_days 739924 30 = Inr (739924 - 30)"
    by (simp add: date_minus_days_def)
  have lib: "\<exists>m. mean py_statistics (map p_value data) = Inr m"
    "\<exists>md. median py_statistics (map p_value data) = Inr md"
    "\<exists>sd. stdev py_statistics (map p_value data) = Inr sd"
    by (simp_all add: data_def py_statistics_def statistics_mean_def statistics_median_def
        statistics_stdev_def is_finite_def py_truediv_def Let_def)
  then obtain m md sd where l: "mean py_statistics (map p_value data) = Inr m"
    "median py_statistics (map p_value data) = Inr md"
    "stdev py_statistics (map p_value data) = Inr sd"
    by blast
  have "2 \<le> length data" "p_value (hd data) \<noteq> Fin 0"
    by (simp_all add: data_def)
  then obtain stt where cs: "calculate_statistics py_statistics data = Inr (Some stt)"
    using calculate_statistics_numeric [of data py_statistics m md sd] l by blast
  have ne: "(data = []) = False" by (simp add: data_def)
  have usa: "COUNTRY_FUEL_DATA ''usa'' = Some usa_cfg"
    by (simp add: COUNTRY_FUEL_DATA_def)
  obtain retail where r: "compute_retail_price (p_value (last data)) ''usa'' = Inr (Some retail)"
    using compute_retail_price_returns [OF usa] by blast
  have p: "three_days_usa ''start_date'' = Some ''2024-02-28''"
    "three_days_usa ''end_date'' = Some ''2024-03-01''"
    "three_days_usa ''location'' = Some ''usa''"
    by (simp_all add: three_days_usa_def)
  have rt: "rt_today demo_app_runtime = 739924" "rt_fromisoformat demo_app_runtime = parse_iso"
    "rt_isoformat demo_app_runtime = isoformat"
    "rt_random demo_app_runtime = (\<lambda>i. if even i then Fin 0.25 else Fin (- 0.125))"
    by (simp_all add: demo_app_runtime_def)
  show ?thesis
    unfolding DataFetcher_generate_mock_oil_data_def Let_def rt
    by (simp only: dm p demo_dates usa option.case sum.case prod.case option.map
        d cs ne if_False r) blast
qed

text \<open>
  C4, at the failing input. For the range from 2024-02-28 to 2024-02-28 with the location
  \<open>usa\<close> the generator of \<open>app.py\<close> raises \<open>TypeError\<close>: the statistics of a series
  of one entry are \<open>None\<close>, and \<open>stats["retail_price"] = retail\<close> assigns into them.
  The same range without a location gives the one entry, three days with the location
  give the three entries, and the generator of \<open>data.py\<close> gives the one entry of the
  single day.
\<close>

theorem C4_single_day_with_location_raises:
  "DataFetcher_generate_mock_oil_data demo_app_runtime py_statistics single_day_usa
     = Inl TypeError
   \<and> (\<exists>r. DataFetcher_generate_mock_oil_data demo_app_runtime py_statistics single_day = Inr r
          \<and> map p_date (m_data r) = [''2024-02-28''] \<and> m_stats r = None)
   \<and> (\<exists>r. DataFetcher_generate_mock_oil_data demo_app_runtime py_statistics three_days_usa
             = Inr r
          \<and> map p_date (m_data r) = [''2024-02-28'', ''2024-02-29'', ''2024-03-01''])
   \<and> (\<exists>data. generate_mock_oil_data demo_runtime ''2024-02-28'' ''2024-02-28'' = Inr data
          \<and> map e_date data = [''2024-02-28''])"
proof -
  have today: "30 < rt_today demo_app_runtime" "rt_today demo_app_runtime \<le> 3652059"
    by (simp_all add: demo_app_runtime_def)
  have day: "rt_fromisoformat demo_app_runtime ''2024-02-28'' = Some 738944"
    "rt_fromisoformat demo_app_runtime ''2024-03-01'' = Some 738946"
    "rt_strptime demo_runtime ''2024-02-28'' = Some 738944"
    by (simp_all add: demo_app_runtime_def demo_runtime_def demo_dates)
  have usa: "COUNTRY_FUEL_DATA ''usa'' = Some usa_cfg"
    by (simp add: COUNTRY_FUEL_DATA_def)
  have 1: "DataFetcher_generate_mock_oil_data demo_app_runtime py_statistics single_day_usa
     = Inl TypeError"
    using DataFetcher_single_day_raises [OF today _ _ day(1) _ usa, of single_day_usa]
    by (simp add: single_day_usa_def)
  have iso: "rt_isoformat demo_app_runtime 738944 = ''2024-02-28''"
    by (simp add: demo_app_runtime_def demo_dates)
  have p2: "single_day ''start_date'' = Some ''2024-02-28''"
    "single_day ''end_date'' = Some ''2024-02-28''" "single_day ''location'' = None"
    by (simp_all add: single_day_def)
  have 2: "\<exists>r. DataFetcher_generate_mock_oil_data demo_app_runtime py_statistics single_day = Inr r
          \<and> map p_date (m_data r) = [''2024-02-28''] \<and> m_stats r = None"
    using DataFetcher_single_day_returns [OF today p2(1) p2(2) day(1) p2(3), of py_statistics]
    unfolding iso .
  obtain r where r: "DataFetcher_generate_mock_oil_data demo_app_runtime py_statistics
      three_days_usa = Inr r"
    using DataFetcher_three_days_returns by blast
  have "map p_date (m_data r) = map (rt_isoformat demo_app_runtime) [738944..738946]"
    using DataFetcher_generate_mock_oil_data_dates [OF r _ day(1) _ day(2)]
    by (simp add: three_days_usa_def)
  then have 3: "map p_date (m_data r) = [''2024-02-28'', ''2024-02-29'', ''2024-03-01'']"
    by (simp add: demo_app_runtime_def demo_dates)
  have 4: "\<exists>data. generate_mock_oil_data demo_runtime ''2024-02-28'' ''2024-02-28'' = Inr data
          \<and> map e_date data = [''2024-02-28'']"
    using generate_mock_oil_data_length [OF day(3) day(3)]
    by (auto simp add: demo_runtime_def demo_dates)
  have three: "\<exists>r. DataFetcher_generate_mock_oil_data demo_app_runtime py_statistics three_days_usa
             = Inr r
          \<and> map p_date (m_data r) = [''2024-02-28'', ''2024-02-29'', ''2024-03-01'']"
    using r 3 by (intro exI conjI)
  show ?thesis
    apply (rule conjI [OF 1])
    apply (rule conjI [OF 2])
    apply (rule conjI [OF three])
    apply (rule 4)
    done
qed

lemma generate_mock_oil_data_empty_iff:
  "generate_mock_oil_data rt start end = Inr [] \<longleftrightarrow>
     (\<exists>s e. rt_strptime rt start = Some s \<and> rt_strptime rt end = Some e \<and> e < s)"
  by (auto simp add: generate_mock_oil_data_def Let_def split: option.splits)

lemma generate_mock_oil_data_raises:
  "generate_mock_oil_data rt start end = Inl err \<longleftrightarrow>
     err = ValueError \<and> (rt_strptime rt start = None \<or> rt_strptime rt end = None)"
  by (auto simp add: generate_mock_oil_data_def Let_def split: option.splits)

lemma fetch_oil_prices_cases:
  "fetch_oil_prices rt EIA_KEY reply start end = generate_mock_oil_data rt start end
   \<or> (\<exists>api_data. \<not> key_missing EIA_KEY \<and> reply = EiaData api_data
        \<and> fetch_oil_prices rt EIA_KEY reply start end =
            Inr (concat (map (\<lambda>item.
                              case (period item, item_value item) of
                                (Some p, Some v) \<Rightarrow> [\<lparr> e_date = p, e_value = v \<rparr>]
                              | _ \<Rightarrow> [])
                            api_data))
        \<and> (concat (map (\<lambda>item.
                              case (period item, item_value item) of
                                (Some p, Some v) \<Rightarrow> [\<lparr> e_date = p, e_value = v \<rparr>]
                              | _ \<Rightarrow> [])
                            api_data) = [] \<longrightarrow> api_data = []))"
  by (cases reply) (auto simp add: fetch_oil_prices_def Let_def)

text \<open>
  C5 (as amended). \<open>fetch_oil_prices\<close> has no error value. With a key, a reply whose data
  array is empty is returned as the empty list; without one, a range whose start is after
  its end gives the empty synthetic series. These are the only ways to an empty result,
  and the function raises only \<open>ValueError\<close>, when the synthetic generator cannot parse
  a bound.
\<close>

theorem C5_fetch_oil_prices_result:
  "(\<not> key_missing EIA_KEY \<longrightarrow> fetch_oil_prices rt EIA_KEY (EiaData []) start end = Inr [])
   \<and> (key_missing EIA_KEY \<and> rt_strptime rt start = Some s \<and> rt_strptime rt end = Some e
        \<and> e < s \<longrightarrow> fetch_oil_prices rt EIA_KEY reply start end = Inr [])
   \<and> (fetch_oil_prices rt EIA_KEY reply start end = Inr [] \<longrightarrow>
        (\<not> key_missing EIA_KEY \<and> reply = EiaData [])
        \<or> (\<exists>s e. rt_strptime rt start = Some s \<and> rt_strptime rt end = Some e \<and> e < s))
   \<and> (fetch_oil_prices rt EIA_KEY reply start end = Inl err \<longrightarrow>
        err = ValueError \<and> (rt_strptime rt start = None \<or> rt_strptime rt end = None))"
proof -
  have 1: "\<not> key_missing EIA_KEY \<longrightarrow>
      fetch_oil_prices rt EIA_KEY (EiaData []) start end = Inr []"
    by (simp add: fetch_oil_prices_def)
  have 2: "key_missing EIA_KEY \<and> rt_strptime rt start = Some s \<and> rt_strptime rt end = Some e
        \<and> e < s \<longrightarrow> fetch_oil_prices rt EIA_KEY reply start end = Inr []"
    using generate_mock_oil_data_empty_iff [of rt start "end"]
    by (auto simp add: fetch_oil_prices_def)
  have 3: "fetch_oil_prices rt EIA_KEY reply start end = Inr [] \<longrightarrow>
        (\<not> key_missing EIA_KEY \<and> reply = EiaData [])
        \<or> (\<exists>s e. rt_strptime rt start = Some s \<and> rt_strptime rt end = Some e \<and> e < s)"
    using fetch_oil_prices_cases [of rt EIA_KEY reply start "end"]
      generate_mock_oil_data_empty_iff [of rt start "end"]
    by auto
  have 4: "fetch_oil_prices rt EIA_KEY reply start end = Inl err \<longrightarrow>
        err = ValueError \<and> (rt_strptime rt start = None \<or> rt_strptime rt end = None)"
    using fetch_oil_prices_cases [of rt EIA_KEY reply start "end"]
      generate_mock_oil_data_raises [of rt start "end" err]
    by auto
  show ?thesis using 1 2 3 4 by blast
qed

theorem C5_fetch_oil_prices_result_witness:
  "fetch_oil_prices demo_runtime (Some ''k3y'') (EiaData []) ''2024-02-28'' ''2024-03-01'' = Inr []
   \<and> fetch_oil_prices demo_runtime None EiaRaises ''2024-03-01'' ''2024-02-28'' = Inr []"
proof -
  have k: "\<not> key_missing (Some ''k3y'')" "key_missing None"
    by (simp_all add: key_missing_def)
  have h: "key_missing None \<and> rt_strptime demo_runtime ''2024-03-01'' = Some 738946
      \<and> rt_strptime demo_runtime ''2024-02-28'' = Some 738944 \<and> (738944 :: int) < 738946"
    by (simp add: demo_runtime_def demo_dates key_missing_def)
  note T1 = C5_fetch_oil_prices_result [THEN conjunct1, rule_format, OF k(1)]
  note T2 = C5_fetch_oil_prices_result [THEN conjunct2, THEN conjunct1, rule_format, OF h]
  show ?thesis using T1 T2 by simp
qed

text \<open>
  Against C5 as stated: with a key configured, a reply with an empty data array is
  returned as an empty list, without raising.
\<close>

theorem C5_fetch_oil_prices_result_counterexample:
  "fetch_oil_prices demo_runtime (Some ''k3y'') (EiaData []) ''2024-02-28'' ''2024-03-01'' = Inr []"
  by (simp add: fetch_oil_prices_def key_missing_def)

text \<open>
  C10. When the fetched series is empty, \<open>get_oil_price(date)\<close> returns
  \<open>{"date": date, "value": None}\<close> (and the first entry otherwise); when the symbol is
  missing from the fetched rates, \<open>get_fx_rate(symbol)\<close> returns \<open>{symbol: None}\<close> (and
  the rate otherwise).
\<close>

theorem C10_direct_accessors:
  "(fetch_oil_prices rt EIA_KEY reply date date = Inr [] \<longrightarrow>
      get_oil_price rt EIA_KEY reply date = Inr \<lparr> e_date = date, e_value = PyNone \<rparr>)
   \<and> (fetch_oil_prices rt EIA_KEY reply date date = Inr (x # xs) \<longrightarrow>
      get_oil_price rt EIA_KEY reply date = Inr x)
   \<and> (fetch_fx_rates OXR_KEY fx_reply ''USD'' symbol symbol = None \<longrightarrow>
      get_fx_rate OXR_KEY fx_reply symbol = [symbol \<mapsto> None])
   \<and> (fetch_fx_rates OXR_KEY fx_reply ''USD'' symbol symbol = Some r \<longrightarrow>
      get_fx_rate OXR_KEY fx_reply symbol = [symbol \<mapsto> Some r])"
  by (simp add: get_oil_price_def get_fx_rate_def Let_def)

theorem C10_direct_accessors_witness:
  "get_oil_price demo_runtime (Some ''k3y'') (EiaData []) ''2024-02-28''
     = Inr \<lparr> e_date = ''2024-02-28'', e_value = PyNone \<rparr>
   \<and> get_oil_price demo_runtime (Some ''k3y'')
        (EiaData [\<lparr>period = Some ''2024-02-28'', item_value = Some (PyStr ''81.5'')\<rparr>])
        ''2024-02-28''
     = Inr \<lparr> e_date = ''2024-02-28'', e_value = PyStr ''81.5'' \<rparr>
   \<and> get_fx_rate (Some ''k3y'') (FxRates [''EUR'' \<mapsto> 0.92]) ''JPY'' = [''JPY'' \<mapsto> None]
   \<and> get_fx_rate None FxRaises ''EUR,JPY'' = [''EUR,JPY'' \<mapsto> None]
   \<and> get_fx_rate None FxRaises ''EUR'' = [''EUR'' \<mapsto> Some 1]"
proof -
  have k: "\<not> key_missing (Some ''k3y'')" "key_missing None"
    by (simp_all add: key_missing_def)
  have a: "fetch_oil_prices demo_runtime (Some ''k3y'') (EiaData []) ''2024-02-28'' ''2024-02-28''
             = Inr []"
    using k by (simp add: fetch_oil_prices_def)
  have b: "fetch_oil_prices demo_runtime (Some ''k3y'')
        (EiaData [\<lparr>period = Some ''2024-02-28'', item_value = Some (PyStr ''81.5'')\<rparr>])
        ''2024-02-28'' ''2024-02-28''
        = Inr (\<lparr> e_date = ''2024-02-28'', e_value = PyStr ''81.5'' \<rparr> # [])"
    using k by (simp add: fetch_oil_prices_def)
  have c: "fetch_fx_rates (Some ''k3y'') (FxRates [''EUR'' \<mapsto> 0.92]) ''USD'' ''JPY'' ''JPY'' = None"
    using k by (simp add: fetch_fx_rates_def)
  have d: "fetch_fx_rates None FxRaises ''USD'' ''EUR,JPY'' ''EUR,JPY'' = None"
    using k by (simp add: fetch_fx_rates_def generate_mock_fx_data_def)
  have e: "fetch_fx_rates None FxRaises ''USD'' ''EUR'' ''EUR'' = Some 1"
    using k by (simp add: fetch_fx_rates_def generate_mock_fx_data_def)
  note A = C10_direct_accessors [THEN conjunct1, rule_format, OF a]
  note B = C10_direct_accessors [THEN conjunct2, THEN conjunct1, rule_format, OF b]
  note C = C10_direct_accessors [THEN conjunct2, THEN conjunct2, THEN conjunct1, rule_format, OF c]
  note D = C10_direct_accessors [THEN conjunct2, THEN conjunct2, THEN conjunct1, rule_format, OF d]
  note E = C10_direct_accessors [THEN conjunct2, THEN conjunct2, THEN conjunct2, rule_format, OF e]
  show ?thesis using A B C D E by blast
qed

text \<open>
  C7 (as amended). In \<open>app.py\<close> every requested symbol other than the base gets the rate
  1.0 + 0.1 * i, with i the zero-based position of its last occurrence in the request, and
  the base gets no rate. In \<open>data.py\<close> every requested symbol gets that rate, the base
  included: the rates are defined exactly on the requested symbols.
\<close>

theorem C7_synthetic_fx_rates:
  "(i < length (requested_symbols parameters)
      \<and> requested_symbols parameters ! i
            \<noteq> fx_base (DataFetcher_generate_mock_fx_data parameters)
      \<and> requested_symbols parameters ! i
            \<notin> set (drop (Suc i) (requested_symbols parameters)) \<longrightarrow>
      fx_rates (DataFetcher_generate_mock_fx_data parameters) (requested_symbols parameters ! i)
        = Some (1.0 + 0.1 * real i))
   \<and> fx_rates (DataFetcher_generate_mock_fx_data parameters)
        (fx_base (DataFetcher_generate_mock_fx_data parameters)) = None
   \<and> (j < length (split_comma syms)
      \<and> split_comma syms ! j \<notin> set (drop (Suc j) (split_comma syms)) \<longrightarrow>
      generate_mock_fx_data syms (split_comma syms ! j) = Some (1.0 + 0.1 * real j))
   \<and> dom (generate_mock_fx_data syms) = set (split_comma syms)
   \<and> (key_missing OXR_KEY \<longrightarrow>
        dom (fetch_fx_rates OXR_KEY fx_reply base syms) = set (split_comma syms))"
proof -
  have 1: "i < length (requested_symbols parameters)
      \<and> requested_symbols parameters ! i
            \<noteq> fx_base (DataFetcher_generate_mock_fx_data parameters)
      \<and> requested_symbols parameters ! i
            \<notin> set (drop (Suc i) (requested_symbols parameters)) \<longrightarrow>
      fx_rates (DataFetcher_generate_mock_fx_data parameters) (requested_symbols parameters ! i)
        = Some (1.0 + 0.1 * real i)"
    using DataFetcher_rates_at [of i parameters] by (simp add: mult.commute)
  have 2: "j < length (split_comma syms)
      \<and> split_comma syms ! j \<notin> set (drop (Suc j) (split_comma syms)) \<longrightarrow>
      generate_mock_fx_data syms (split_comma syms ! j) = Some (1.0 + 0.1 * real j)"
    using generate_mock_fx_data_at [of j syms] by (simp add: mult.commute)
  have 3: "key_missing OXR_KEY \<longrightarrow>
        dom (fetch_fx_rates OXR_KEY fx_reply base syms) = set (split_comma syms)"
    using generate_mock_fx_data_dom [of syms] by (simp add: fetch_fx_rates_def)
  show ?thesis
    using 1 2 3 DataFetcher_rates_base [of parameters] generate_mock_fx_data_dom [of syms]
    by blast
qed

text \<open>
  Against C7 as stated: for the request \<open>EUR,USD\<close> with the base USD the synthetic rates
  of \<open>data.py\<close> give USD the rate 1.1, where \<open>app.py\<close> gives it none.
\<close>

theorem C7_synthetic_fx_rates_counterexample:
  "fetch_fx_rates None FxRaises ''USD'' ''EUR,USD'' ''USD'' = Some 1.1
   \<and> generate_mock_fx_data ''EUR,USD'' ''USD'' = Some 1.1
   \<and> fx_rates (DataFetcher_generate_mock_fx_data
         [''currencies'' \<mapsto> ''EUR,USD'', ''base_currency'' \<mapsto> ''USD'']) ''USD'' = None"
  by (simp add: fetch_fx_rates_def generate_mock_fx_data_def key_missing_def
      DataFetcher_generate_mock_fx_data_def requested_symbols_def Let_def)

theorem C7_synthetic_fx_rates_witness:
  "fx_rates (DataFetcher_generate_mock_fx_data Map.empty) ''GBP'' = Some 1.2
   \<and> generate_mock_fx_data ''EUR,JPY'' ''JPY'' = Some 1.1
   \<and> dom (fetch_fx_rates None FxRaises ''USD'' ''EUR,JPY'') = {''EUR'', ''JPY''}"
proof -
  have r: "requested_symbols Map.empty = [''EUR'', ''USD'', ''GBP'', ''JPY'', ''CAD'']"
    by (simp add: requested_symbols_def)
  have b: "fx_base (DataFetcher_generate_mock_fx_data Map.empty) = ''USD''"
    by (simp add: DataFetcher_generate_mock_fx_data_def Let_def)
  have s: "split_comma ''EUR,JPY'' = [''EUR'', ''JPY'']"
    by simp
  have h1: "2 < length (requested_symbols Map.empty)
      \<and> requested_symbols Map.empty ! 2
            \<noteq> fx_base (DataFetcher_generate_mock_fx_data Map.empty)
      \<and> requested_symbols Map.empty ! 2
            \<notin> set (drop (Suc 2) (requested_symbols Map.empty))"
    unfolding r b by simp
  have h2: "1 < length (split_comma ''EUR,JPY'')
      \<and> split_comma ''EUR,JPY'' ! 1 \<notin> set (drop (Suc 1) (split_comma ''EUR,JPY''))"
    unfolding s by simp
  have h3: "key_missing None" by (simp add: key_missing_def)
  note T = C7_synthetic_fx_rates [of 2 Map.empty 1 "''EUR,JPY''" None FxRaises "''USD''"]
  have A: "fx_rates (DataFetcher_generate_mock_fx_data Map.empty) (requested_symbols Map.empty ! 2)
        = Some (1.0 + 0.1 * real (2::nat))"
    using T h1 by blast
  have B: "generate_mock_fx_data ''EUR,JPY'' (split_comma ''EUR,JPY'' ! 1)
        = Some (1.0 + 0.1 * real (1::nat))"
    using T h2 by blast
  have C: "dom (fetch_fx_rates None FxRaises ''USD'' ''EUR,JPY'') = set (split_comma ''EUR,JPY'')"
    using T h3 by blast
  have A': "fx_rates (DataFetcher_generate_mock_fx_data Map.empty) ''GBP'' = Some 1.2"
    using A unfolding r by simp
  have B': "generate_mock_fx_data ''EUR,JPY'' ''JPY'' = Some 1.1"
    using B unfolding s by simp
  have C': "dom (fetch_fx_rates None FxRaises ''USD'' ''EUR,JPY'') = {''EUR'', ''JPY''}"
    using C unfolding s by simp
  show ?thesis using A' B' C' by blast
qed

subsection \<open>Query understanding\<close>

lemma first_intent_None:
  "first_intent ps s = None \<longleftrightarrow>
     (\<forall>(intent, patterns) \<in> set ps. \<forall>pattern \<in> set patterns. re_search pattern s = None)"
  by (induction ps s rule: first_intent.induct) auto

lemma first_intent_Some:
  "first_intent ps s = Some intent \<Longrightarrow> intent \<in> fst ` set ps"
  by (induction ps s rule: first_intent.induct) (auto split: if_splits)

lemma identify_intent_no_pattern:
  assumes "first_intent INTENT_PATTERNS (lower query) = None"
  shows "identify_intent query =
           (if re_search location_pattern query \<noteq> None
               \<and> re_search fuel_keyword_pattern (lower query) \<noteq> None
            then ''oil_price'' else ''unknown'')"
  using assms by (simp add: identify_intent_def Let_def)

lemma identify_intent_unknown_iff:
  "identify_intent query = ''unknown'' \<longleftrightarrow>
     first_intent INTENT_PATTERNS (lower query) = None
     \<and> \<not> (re_search location_pattern query \<noteq> None
            \<and> re_search fuel_keyword_pattern (lower query) \<noteq> None)"
proof (cases "first_intent INTENT_PATTERNS (lower query)")
  case None
  then show ?thesis by (simp add: identify_intent_def Let_def)
next
  case (Some intent)
  then have "intent \<in> fst ` set INTENT_PATTERNS" by (rule first_intent_Some)
  then have "intent \<noteq> ''unknown''" by (auto simp add: INTENT_PATTERNS_def)
  with Some show ?thesis by (simp add: identify_intent_def Let_def)
qed

lemma parse_query_fallback_intent_known:
  "parse_query_fallback_intent question \<in> {''oil_price'', ''fx_rates'', ''weather''}"
  by (simp add: parse_query_fallback_intent_def Let_def del: set_simps list.set Bex_set bex_simps)

text \<open>
  C8 (as amended). In \<open>QueryProcessor._identify_intent\<close>, when no pattern of the three
  intent groups is found in the lowercased query, the intent is \<open>oil_price\<close> if the
  location pattern is found in the query and a fuel or price word in the lowercased query,
  and \<open>unknown\<close> otherwise. \<open>parse_query_fallback\<close> never returns the intent
  \<open>unknown\<close>: when none of its words occurs, its intent is \<open>oil_price\<close>.
\<close>

theorem C8_intent_unknown:
  "(first_intent INTENT_PATTERNS (lower query) = None \<longleftrightarrow>
      (\<forall>(intent, patterns) \<in> set INTENT_PATTERNS.
         \<forall>pattern \<in> set patterns. re_search pattern (lower query) = None))
   \<and> (first_intent INTENT_PATTERNS (lower query) = None
        \<and> \<not> (re_search location_pattern query \<noteq> None
               \<and> re_search fuel_keyword_pattern (lower query) \<noteq> None) \<longrightarrow>
        identify_intent query = ''unknown'')
   \<and> (first_intent INTENT_PATTERNS (lower query) = None
        \<and> identify_intent query = ''oil_price'' \<longrightarrow>
        re_search location_pattern query \<noteq> None
        \<and> re_search fuel_keyword_pattern (lower query) \<noteq> None)
   \<and> (first_intent INTENT_PATTERNS (lower query) = None
        \<and> re_search location_pattern query \<noteq> None
        \<and> re_search fuel_keyword_pattern (lower query) \<noteq> None \<longrightarrow>
        identify_intent query = ''oil_price'')
   \<and> parse_query_fallback_intent question \<noteq> ''unknown''
   \<and> (\<not> (\<exists>t \<in> set [''oil'', ''crude'', ''price'', ''brent'', ''fuel'', ''gas'', ''petrol''].
               py_in t (lower question))
        \<and> \<not> (\<exists>t \<in> set [''fx'', ''exchange'', ''currency'', ''rate'']. py_in t (lower question))
        \<and> \<not> (\<exists>t \<in> set [''weather'', ''temperature'', ''rain'', ''forecast''].
                 py_in t (lower question)) \<longrightarrow>
        parse_query_fallback_intent question = ''oil_price'')"
proof -
  have 1: "first_intent INTENT_PATTERNS (lower query) = None \<longleftrightarrow>
      (\<forall>(intent, patterns) \<in> set INTENT_PATTERNS.
         \<forall>pattern \<in> set patterns. re_search pattern (lower query) = None)"
    by (rule first_intent_None)
  have 2: "first_intent INTENT_PATTERNS (lower query) = None
        \<and> \<not> (re_search location_pattern query \<noteq> None
               \<and> re_search fuel_keyword_pattern (lower query) \<noteq> None) \<longrightarrow>
        identify_intent query = ''unknown''"
    using identify_intent_unknown_iff [of query] by blast
  have 3: "first_intent INTENT_PATTERNS (lower query) = None
        \<and> identify_intent query = ''oil_price'' \<longrightarrow>
        re_search location_pattern query \<noteq> None
        \<and> re_search fuel_keyword_pattern (lower query) \<noteq> None"
    using identify_intent_no_pattern [of query] by (auto split: if_splits)
  have 4: "first_intent INTENT_PATTERNS (lower query) = None
        \<and> re_search location_pattern query \<noteq> None
        \<and> re_search fuel_keyword_pattern (lower query) \<noteq> None \<longrightarrow>
        identify_intent query = ''oil_price''"
    using identify_intent_no_pattern [of query] by simp
  have 5: "parse_query_fallback_intent question \<noteq> ''unknown''"
    using parse_query_fallback_intent_known [of question] by auto
  have 6: "\<not> (\<exists>t \<in> set [''oil'', ''crude'', ''price'', ''brent'', ''fuel'', ''gas'', ''petrol''].
               py_in t (lower question))
        \<and> \<not> (\<exists>t \<in> set [''fx'', ''exchange'', ''currency'', ''rate'']. py_in t (lower question))
        \<and> \<not> (\<exists>t \<in> set [''weather'', ''temperature'', ''rain'', ''forecast''].
                 py_in t (lower question)) \<longrightarrow>
        parse_query_fallback_intent question = ''oil_price''"
    by (simp add: parse_query_fallback_intent_def Let_def
        del: set_simps list.set Bex_set bex_simps)
  show ?thesis
    apply (intro conjI)
    apply (rule 1)
    apply (rule 2)
    apply (rule 3)
    apply (rule 4)
    apply (rule 5)
    apply (rule 6)
    done
qed

lemma hello_facts:
  "first_intent INTENT_PATTERNS (lower ''hello there'') = None"
  "re_search location_pattern ''hello there'' = None"
  "first_intent INTENT_PATTERNS (lower ''How is the gas in Germany'') = None"
  "re_search location_pattern ''How is the gas in Germany'' \<noteq> None"
  "re_search fuel_keyword_pattern (lower ''How is the gas in Germany'') \<noteq> None"
  by code_simp+

theorem C8_intent_unknown_witness:
  "identify_intent ''hello there'' = ''unknown''
   \<and> identify_intent ''How is the gas in Germany'' = ''oil_price''"
proof -
  have a: "first_intent INTENT_PATTERNS (lower ''hello there'') = None
        \<and> \<not> (re_search location_pattern ''hello there'' \<noteq> None
               \<and> re_search fuel_keyword_pattern (lower ''hello there'') \<noteq> None)"
    using hello_facts(1,2) by simp
  have b: "first_intent INTENT_PATTERNS (lower ''How is the gas in Germany'') = None
        \<and> re_search location_pattern ''How is the gas in Germany'' \<noteq> None
        \<and> re_search fuel_keyword_pattern (lower ''How is the gas in Germany'') \<noteq> None"
    using hello_facts(3,4,5) by simp
  note A = C8_intent_unknown [THEN conjunct2, THEN conjunct1, rule_format, OF a]
  note B = C8_intent_unknown [THEN conjunct2, THEN conjunct2, THEN conjunct2, THEN conjunct1,
      rule_format, OF b]
  show ?thesis using A B by simp
qed

text \<open>
  Against C8 as stated: in \<open>hello there\<close> no intent pattern and no location is found;
  \<open>_identify_intent\<close> answers \<open>unknown\<close> and \<open>parse_query_fallback\<close> answers
  \<open>oil_price\<close>.
\<close>

theorem C8_intent_unknown_counterexample:
  "first_intent INTENT_PATTERNS (lower ''hello there'') = None
   \<and> re_search location_pattern ''hello there'' = None
   \<and> identify_intent ''hello there'' = ''unknown''
   \<and> parse_query_fallback_intent ''hello there'' = ''oil_price''"
  by code_simp

lemma extract_days_ago:
  "extract_parameters ''oil price 1000000 days ago''
     = \<lparr> x_temporal = DaysAgo ''1000000'', x_location = None \<rparr>"
  by code_simp

lemma py_int_million: "py_int ''1000000'' = Some 1000000"
  by (simp add: py_int_def digit_of_def)

lemma analyze_query_overflow:
  assumes "rt_today rt \<le> 1000000"
  shows "analyze_query rt ''oil price 1000000 days ago'' = Inl OverflowError"
  using assms
  by (simp add: analyze_query_def Let_def extract_days_ago temporal_parameters_def
      py_int_million date_minus_days_def)

text \<open>
  C9, at the failing input. On 2026-11-04 (and on every day before the year 2738) the
  query \<open>oil price 1000000 days ago\<close> makes \<open>process_query\<close> raise \<open>OverflowError\<close>:
  the analysis subtracts a million days from today's date, and nothing catches it.
\<close>

theorem C9_process_query_raises:
  "process_query demo_app_runtime fetch_and_respond ''oil price 1000000 days ago''
     = Inl OverflowError"
proof -
  have "rt_today demo_app_runtime \<le> 1000000"
    by (simp add: demo_app_runtime_def)
  then show ?thesis
    by (simp add: process_query_def analyze_query_overflow)
qed

end
